theory Spec2Isabelle
  imports Complex_Main
begin

section \<open>Python values used by the grading code\<close>

text \<open>
  The two programs verified here are \<^verbatim>\<open>backend/app/services/code_execution_service.py\<close>
  (the grading service) and \<^verbatim>\<open>code-executor/app.py\<close> (the executor it posts to).
  A Python \<^verbatim>\<open>str\<close> is modelled as a \<^typ>\<open>string\<close> whose characters are the code points
  U+0000 to U+00FF; on these, \<^verbatim>\<open>str.strip\<close>, \<^verbatim>\<open>str.lower\<close> and \<^verbatim>\<open>float\<close> are
  modelled as CPython defines them.
\<close>

subsection \<open>Whitespace, case and substrings\<close>

definition py_isspace :: "char \<Rightarrow> bool" where
  \<comment> \<open>\<^verbatim>\<open>str.isspace\<close> on one character: the whitespace of \<^verbatim>\<open>str.strip()\<close>.\<close>
  "py_isspace c \<longleftrightarrow>
     c \<in> set [CHR 0x09, CHR 0x0A, CHR 0x0B, CHR 0x0C, CHR 0x0D, CHR 0x1C, CHR 0x1D,
                CHR 0x1E, CHR 0x1F, CHR 0x20, CHR 0x85, CHR 0xA0]"

definition c_isspace :: "char \<Rightarrow> bool" where
  \<comment> \<open>\<^verbatim>\<open>Py_ISSPACE\<close>: the whitespace \<^verbatim>\<open>float\<close> skips after its transformation to ASCII.\<close>
  "c_isspace c \<longleftrightarrow> c \<in> set [CHR 0x09, CHR 0x0A, CHR 0x0B, CHR 0x0C, CHR 0x0D, CHR 0x20]"

definition strip_with :: "(char \<Rightarrow> bool) \<Rightarrow> string \<Rightarrow> string" where
  "strip_with sp s = rev (dropWhile sp (rev (dropWhile sp s)))"

definition str_strip :: "string \<Rightarrow> string" where
  \<comment> \<open>\<^verbatim>\<open>s.strip()\<close>\<close>
  "str_strip s = strip_with py_isspace s"

definition ascii_upper :: string where
  "ascii_upper = ''ABCDEFGHIJKLMNOPQRSTUVWXYZ''"

definition ascii_lower :: string where
  "ascii_lower = ''abcdefghijklmnopqrstuvwxyz''"

definition latin1_upper :: string where
  \<comment> \<open>U+00C0 to U+00DE without the multiplication sign U+00D7\<close>
  "latin1_upper =
     [CHR 0xC0, CHR 0xC1, CHR 0xC2, CHR 0xC3, CHR 0xC4, CHR 0xC5, CHR 0xC6, CHR 0xC7,
      CHR 0xC8, CHR 0xC9, CHR 0xCA, CHR 0xCB, CHR 0xCC, CHR 0xCD, CHR 0xCE, CHR 0xCF,
      CHR 0xD0, CHR 0xD1, CHR 0xD2, CHR 0xD3, CHR 0xD4, CHR 0xD5, CHR 0xD6,
      CHR 0xD8, CHR 0xD9, CHR 0xDA, CHR 0xDB, CHR 0xDC, CHR 0xDD, CHR 0xDE]"

definition latin1_lower :: string where
  "latin1_lower =
     [CHR 0xE0, CHR 0xE1, CHR 0xE2, CHR 0xE3, CHR 0xE4, CHR 0xE5, CHR 0xE6, CHR 0xE7,
      CHR 0xE8, CHR 0xE9, CHR 0xEA, CHR 0xEB, CHR 0xEC, CHR 0xED, CHR 0xEE, CHR 0xEF,
      CHR 0xF0, CHR 0xF1, CHR 0xF2, CHR 0xF3, CHR 0xF4, CHR 0xF5, CHR 0xF6,
      CHR 0xF8, CHR 0xF9, CHR 0xFA, CHR 0xFB, CHR 0xFC, CHR 0xFD, CHR 0xFE]"

definition c_tolower :: "char \<Rightarrow> char" where
  \<comment> \<open>\<^verbatim>\<open>Py_TOLOWER\<close>: ASCII letters only\<close>
  "c_tolower c = (case map_of (zip ascii_upper ascii_lower) c of Some l \<Rightarrow> l | None \<Rightarrow> c)"

definition lower_char :: "char \<Rightarrow> char" where
  "lower_char c =
     (case map_of (zip (ascii_upper @ latin1_upper) (ascii_lower @ latin1_lower)) c of
        Some l \<Rightarrow> l
      | None \<Rightarrow> c)"

definition str_lower :: "string \<Rightarrow> string" where
  \<comment> \<open>\<^verbatim>\<open>s.lower()\<close>\<close>
  "str_lower s = map lower_char s"

fun is_prefix :: "string \<Rightarrow> string \<Rightarrow> bool" where
  "is_prefix [] ys = True"
| "is_prefix (x # xs) [] = False"
| "is_prefix (x # xs) (y # ys) = (x = y \<and> is_prefix xs ys)"

fun str_contains :: "string \<Rightarrow> string \<Rightarrow> bool" where
  \<comment> \<open>\<^verbatim>\<open>needle in hay\<close>\<close>
  "str_contains needle [] = (needle = [])"
| "str_contains needle (c # cs) = (is_prefix needle (c # cs) \<or> str_contains needle cs)"

subsection \<open>Floats\<close>

text \<open>
  A Python \<^verbatim>\<open>float\<close> is an IEEE 754 binary64 value. \<open>Finite s m e\<close> is
  \<open>(-1)\<^sup>s \<sqdot> m \<sqdot> 2\<^sup>e\<close> in canonical form: \<open>e = -1074\<close> and \<open>m < 2\<^sup>5\<^sup>2\<close> (zero and the
  subnormal numbers), or \<open>2\<^sup>5\<^sup>2 \<le> m < 2\<^sup>5\<^sup>3\<close> and \<open>-1074 \<le> e \<le> 971\<close>.
\<close>

datatype double = Finite bool nat int | Infinity bool | NaN

fun bit_length :: "nat \<Rightarrow> nat" where
  "bit_length n = (if n = 0 then 0 else Suc (bit_length (n div 2)))"

declare bit_length.simps [simp del]

definition round_half_even :: "nat \<Rightarrow> nat \<Rightarrow> nat" where
  \<comment> \<open>the integer nearest to \<open>num / den\<close>, a tie going to the even one\<close>
  "round_half_even num den =
     (let q = num div den; r = num mod den
      in if den < 2 * r \<or> (2 * r = den \<and> odd q) then q + 1 else q)"

definition floor_log2 :: "nat \<Rightarrow> nat \<Rightarrow> int" where
  \<comment> \<open>\<open>\<lfloor>log\<^sub>2 (n / d)\<rfloor>\<close> for positive \<open>n\<close> and \<open>d\<close>\<close>
  "floor_log2 n d =
     (let k = int (bit_length n) - int (bit_length d)
      in if (if 0 \<le> k then d * 2 ^ nat k \<le> n else d \<le> n * 2 ^ nat (- k)) then k else k - 1)"

definition round_double :: "bool \<Rightarrow> nat \<Rightarrow> nat \<Rightarrow> double" where
  \<comment> \<open>\<open>(-1)\<^sup>s \<sqdot> n / d\<close> rounded to the nearest binary64 value, ties to even; \<open>d > 0\<close>\<close>
  "round_double s n d =
     (if n = 0 then Finite s 0 (- 1074)
      else
        let e = max (floor_log2 n d - 52) (- 1074);
            m = (if 0 \<le> e then round_half_even n (d * 2 ^ nat e)
                 else round_half_even (n * 2 ^ nat (- e)) d);
            m' = (if m = 2 ^ 53 then 2 ^ 52 else m);
            e' = (if m = 2 ^ 53 then e + 1 else e)
        in if 971 < e' then Infinity s else Finite s m' e')"

fun float_eq :: "double \<Rightarrow> double \<Rightarrow> bool" where
  \<comment> \<open>\<^verbatim>\<open>x == y\<close> on floats: a NaN equals nothing, the two zeros are equal\<close>
  "float_eq (Finite s m e) (Finite s' m' e') = ((m = 0 \<and> m' = 0) \<or> (s = s' \<and> m = m' \<and> e = e'))"
| "float_eq (Infinity s) (Infinity s') = (s = s')"
| "float_eq x y = False"

subsection \<open>\<^verbatim>\<open>float(s)\<close> on a string\<close>

definition is_digit :: "char \<Rightarrow> bool" where
  "is_digit c \<longleftrightarrow> c \<in> set ''0123456789''"

definition digit_value :: "char \<Rightarrow> nat" where
  "digit_value c = of_char c - 48"

definition decimal_value :: "string \<Rightarrow> nat" where
  "decimal_value ds = foldl (\<lambda>a c. 10 * a + digit_value c) 0 ds"

definition float_ascii :: "char \<Rightarrow> char" where
  \<comment> \<open>\<^verbatim>\<open>_PyUnicode_TransformDecimalAndSpaceToASCII\<close>: a character from U+007F on becomes a
      space when it is whitespace and \<^verbatim>\<open>?\<close> otherwise (no decimal digit lies in U+007F to
      U+00FF); CPython also cuts the string after the first \<^verbatim>\<open>?\<close>, and either string is
      rejected below\<close>
  "float_ascii c =
     (if (of_char c :: nat) < 127 then c else if py_isspace c then CHR '' '' else CHR ''?'')"

fun strip_underscores :: "char \<Rightarrow> string \<Rightarrow> string option" where
  \<comment> \<open>\<^verbatim>\<open>_Py_string_to_number_with_underscores\<close>: an underscore stands between two digits\<close>
  "strip_underscores prev [] = (if prev = CHR ''_'' then None else Some [])"
| "strip_underscores prev (c # cs) =
     (if c = CHR ''_'' then (if is_digit prev then strip_underscores c cs else None)
      else if prev = CHR ''_'' \<and> \<not> is_digit c then None
      else map_option ((#) c) (strip_underscores c cs))"

definition split_sign :: "string \<Rightarrow> bool \<times> string" where
  "split_sign s =
     (case s of
        [] \<Rightarrow> (False, [])
      | c # r \<Rightarrow> if c = CHR ''-'' then (True, r) else if c = CHR ''+'' then (False, r) else (False, s))"

definition decimal_to_double :: "bool \<Rightarrow> nat \<Rightarrow> int \<Rightarrow> double" where
  \<comment> \<open>\<open>(-1)\<^sup>s \<sqdot> n \<sqdot> 10\<^sup>k\<close>, correctly rounded\<close>
  "decimal_to_double s n k =
     (if 0 \<le> k then round_double s (n * 10 ^ nat k) 1 else round_double s n (10 ^ nat (- k)))"

definition parse_exponent :: "string \<Rightarrow> int option" where
  \<comment> \<open>what follows the mantissa: nothing, or \<^verbatim>\<open>e\<close>, an optional sign and digits\<close>
  "parse_exponent s =
     (case s of
        [] \<Rightarrow> Some 0
      | c # r \<Rightarrow>
          if c = CHR ''e'' \<or> c = CHR ''E'' then
            (let (neg, ds) = split_sign r
             in if ds \<noteq> [] \<and> list_all is_digit ds
                then Some (if neg then - int (decimal_value ds) else int (decimal_value ds))
                else None)
          else None)"

definition strtod :: "string \<Rightarrow> double option" where
  \<comment> \<open>\<^verbatim>\<open>_Py_dg_strtod\<close> where it reads the whole string: sign, digits, point, digits, exponent,
      with a digit before or after the point\<close>
  "strtod s =
     (let (neg, t) = split_sign s;
          ip = takeWhile is_digit t;
          t1 = dropWhile is_digit t;
          fp = (case t1 of [] \<Rightarrow> [] | c # r \<Rightarrow> if c = CHR ''.'' then takeWhile is_digit r else []);
          t2 = (case t1 of [] \<Rightarrow> [] | c # r \<Rightarrow> if c = CHR ''.'' then dropWhile is_digit r else t1)
      in if ip = [] \<and> fp = [] then None
         else (case parse_exponent t2 of
                 None \<Rightarrow> None
               | Some ex \<Rightarrow> Some (decimal_to_double neg (decimal_value (ip @ fp)) (ex - int (length fp)))))"

definition parse_inf_or_nan :: "string \<Rightarrow> double option" where
  \<comment> \<open>\<^verbatim>\<open>_Py_parse_inf_or_nan\<close>\<close>
  "parse_inf_or_nan s =
     (let (neg, t) = split_sign s; l = map c_tolower t
      in if l = ''inf'' \<or> l = ''infinity'' then Some (Infinity neg)
         else if l = ''nan'' then Some NaN
         else None)"

definition py_float :: "string \<Rightarrow> double option" where
  \<comment> \<open>\<^verbatim>\<open>float(s)\<close>; \<open>None\<close> is the \<^verbatim>\<open>ValueError\<close>\<close>
  "py_float s =
     (case strip_underscores (CHR 0x00) (map float_ascii s) of
        None \<Rightarrow> None
      | Some t \<Rightarrow>
          (let u = strip_with c_isspace t
           in if u = [] then None
              else (case strtod u of Some d \<Rightarrow> Some d | None \<Rightarrow> parse_inf_or_nan u)))"

section \<open>The comparison of outputs\<close>

definition compare_outputs :: "string \<Rightarrow> string \<Rightarrow> string \<Rightarrow> bool" where
  \<comment> \<open>\<^verbatim>\<open>CodeExecutionService._compare_outputs\<close>\<close>
  "compare_outputs actual expected comparison_type =
     (let actual_clean = str_strip actual;
          expected_clean = str_strip expected
      in if comparison_type = ''exact'' then actual_clean = expected_clean
         else if comparison_type = ''numeric'' then
           (case py_float actual_clean of
              None \<Rightarrow> actual_clean = expected_clean
            | Some a \<Rightarrow>
                (case py_float expected_clean of
                   None \<Rightarrow> actual_clean = expected_clean
                 | Some e \<Rightarrow> float_eq a e))
         else if comparison_type = ''contains'' then
           str_contains (str_lower expected_clean) (str_lower actual_clean)
         else actual_clean = expected_clean)"

subsection \<open>Float arithmetic of the score\<close>

datatype py_error = ZeroDivisionError | OverflowError | FileExistsError | OSError string

definition int_truediv :: "int \<Rightarrow> int \<Rightarrow> py_error + double" where
  \<comment> \<open>\<^verbatim>\<open>a / b\<close> on two ints: the correctly rounded quotient\<close>
  "int_truediv a b =
     (if b = 0 then Inl ZeroDivisionError
      else (case round_double ((a < 0) \<noteq> (b < 0)) (nat \<bar>a\<bar>) (nat \<bar>b\<bar>) of
              Infinity sg \<Rightarrow> Inl OverflowError
            | q \<Rightarrow> Inr q))"

definition int_to_float :: "int \<Rightarrow> py_error + double" where
  \<comment> \<open>the conversion of the int operand of a float operation\<close>
  "int_to_float i =
     (case round_double (i < 0) (nat \<bar>i\<bar>) 1 of Infinity sg \<Rightarrow> Inl OverflowError | x \<Rightarrow> Inr x)"

fun float_mul :: "double \<Rightarrow> double \<Rightarrow> double" where
  \<comment> \<open>\<^verbatim>\<open>x * y\<close> on floats\<close>
  "float_mul NaN y = NaN"
| "float_mul x NaN = NaN"
| "float_mul (Infinity s) (Infinity s') = Infinity (s \<noteq> s')"
| "float_mul (Infinity s) (Finite s' m e) = (if m = 0 then NaN else Infinity (s \<noteq> s'))"
| "float_mul (Finite s m e) (Infinity s') = (if m = 0 then NaN else Infinity (s \<noteq> s'))"
| "float_mul (Finite s m e) (Finite s' m' e') =
     (if 0 \<le> e + e' then round_double (s \<noteq> s') (m * m' * 2 ^ nat (e + e')) 1
      else round_double (s \<noteq> s') (m * m') (2 ^ nat (- (e + e'))))"

datatype py_number = PyInt int | PyFloat double

definition float_times_int :: "double \<Rightarrow> int \<Rightarrow> py_error + double" where
  \<comment> \<open>\<^verbatim>\<open>x * i\<close> for a float \<open>x\<close> and an int \<open>i\<close>\<close>
  "float_times_int x i = (case int_to_float i of Inl err \<Rightarrow> Inl err | Inr y \<Rightarrow> Inr (float_mul x y))"

section \<open>The executor: \<^verbatim>\<open>code-executor/app.py\<close>\<close>

subsection \<open>Results, the operating system and what it does in one execution\<close>

datatype exec_result =
    Completed string string int bool
      \<comment> \<open>the dict with \<^verbatim>\<open>stdout\<close>, \<^verbatim>\<open>stderr\<close>, \<^verbatim>\<open>return_code\<close> and \<^verbatim>\<open>success\<close>\<close>
  | Failed string
      \<comment> \<open>the dict with the one key \<^verbatim>\<open>error\<close>\<close>

fun result_stdout :: "exec_result \<Rightarrow> string option" where
  \<comment> \<open>\<^verbatim>\<open>result.get('stdout')\<close>\<close>
  "result_stdout (Completed out err rc ok) = Some out"
| "result_stdout (Failed msg) = None"

fun result_success :: "exec_result \<Rightarrow> bool option" where
  \<comment> \<open>\<^verbatim>\<open>result.get('success')\<close>\<close>
  "result_success (Completed out err rc ok) = Some ok"
| "result_success (Failed msg) = None"

fun result_error :: "exec_result \<Rightarrow> string option" where
  \<comment> \<open>\<^verbatim>\<open>result.get('error')\<close>\<close>
  "result_error (Completed out err rc ok) = None"
| "result_error (Failed msg) = Some msg"

text \<open>
  The executor acts on a file system and a process table, and its result depends on what
  the compiler and the submitted program do. The state \<open>os_state\<close> is passed through every
  function; a \<open>world\<close> fixes, for one execution, what the environment does: the names
  \<^verbatim>\<open>tempfile\<close> draws, whether creating or writing the file fails, what the compiler
  returns and writes, and what \<^verbatim>\<open>communicate\<close> does. The theorems hold for every world.
\<close>

type_synonym path = string

record os_state =
  files :: "path \<rightharpoonup> string"
    \<comment> \<open>the files and their contents\<close>
  live :: "nat set"
    \<comment> \<open>the ids of the processes that are running\<close>
  spawned :: "string list list"
    \<comment> \<open>the commands started so far, in order\<close>

datatype cause = Ordinary | CpuLimit | MemoryLimit | OutputLimit
  \<comment> \<open>why a child has ended: by itself, or because it passed a limit of \<^verbatim>\<open>set_limits\<close>;
      the executor cannot observe it\<close>

datatype wait_outcome =
    Returns cause string string int
      \<comment> \<open>\<^verbatim>\<open>communicate\<close> returns before the deadline: the pipes of the child have been
          closed by every process that held them and the child has ended. The strings are
          stdout and stderr; the int is \<^verbatim>\<open>process.returncode\<close>, the exit code or minus the
          signal that ended the child\<close>
  | TimeoutExpired
      \<comment> \<open>\<^verbatim>\<open>communicate\<close> raises \<^verbatim>\<open>TimeoutExpired\<close>: after \<^verbatim>\<open>MAX_EXECUTION_TIME\<close> a pipe
          is still open or the child still runs. This is also what happens when the child
          itself has ended, with whatever exit code, and a process it started keeps its
          stdout or stderr open\<close>
  | CommunicateRaises string
      \<comment> \<open>\<^verbatim>\<open>communicate\<close> raises another exception, after the child has ended (its
          output does not decode)\<close>

text \<open>
  A \<open>wait_outcome\<close> says what the call of \<^verbatim>\<open>communicate\<close> does, which is all that the
  executor sees of the child; it is not the fate of the child alone.
\<close>

record child =
  pid :: nat
  descendants :: "nat set"
    \<comment> \<open>processes the program started itself and that still run when \<^verbatim>\<open>communicate\<close>
        returns or raises\<close>
  outcome :: wait_outcome

record compile_run =
  c_returncode :: int
  c_stderr :: string
  c_written :: "path \<rightharpoonup> string"
    \<comment> \<open>the files the compiler wrote\<close>

record world =
  tmp_names :: "string list"
    \<comment> \<open>the random file names \<^verbatim>\<open>tempfile\<close> draws, in order\<close>
  tmp_error :: "string option"
    \<comment> \<open>creating the file raises \<^verbatim>\<open>OSError\<close> (the directory is missing)\<close>
  write_error :: "string option"
    \<comment> \<open>writing the code raises \<^verbatim>\<open>OSError\<close>\<close>
  compiler :: "string + compile_run"
    \<comment> \<open>\<open>Inl\<close>: \<^verbatim>\<open>subprocess.run\<close> raises (the compiler is not installed)\<close>
  program :: "string + child"
    \<comment> \<open>\<open>Inl\<close>: \<^verbatim>\<open>subprocess.Popen\<close> raises\<close>

subsection \<open>Constants and the language table\<close>

definition MAX_EXECUTION_TIME :: nat where
  "MAX_EXECUTION_TIME = 10"

definition MEMORY_LIMIT :: nat where
  "MEMORY_LIMIT = 256 * 1024 * 1024"

definition MAX_OUTPUT_SIZE :: nat where
  "MAX_OUTPUT_SIZE = 1024 * 1024"

record rlimits =
  rlimit_cpu :: nat
  rlimit_as :: nat
  rlimit_fsize :: nat

definition set_limits :: rlimits where
  \<comment> \<open>\<^verbatim>\<open>CodeExecutor.set_limits\<close>, run in the child before the program: the limits whose
      violation is a \<open>cause\<close> other than \<open>Ordinary\<close>\<close>
  "set_limits =
     \<lparr>rlimit_cpu = MAX_EXECUTION_TIME, rlimit_as = MEMORY_LIMIT, rlimit_fsize = MAX_OUTPUT_SIZE\<rparr>"

record lang_info =
  extension :: string
  command :: string

definition supported_languages :: "string \<rightharpoonup> lang_info" where
  "supported_languages =
     map_of
       [(''python'', \<lparr>extension = ''py'', command = ''python3''\<rparr>),
        (''javascript'', \<lparr>extension = ''js'', command = ''node''\<rparr>),
        (''java'', \<lparr>extension = ''java'', command = ''java''\<rparr>),
        (''cpp'', \<lparr>extension = ''cpp'', command = ''g++''\<rparr>),
        (''go'', \<lparr>extension = ''go'', command = ''go run''\<rparr>)]"

subsection \<open>Library functions of the executor\<close>

fun split_acc :: "string \<Rightarrow> string \<Rightarrow> string list" where
  "split_acc cur [] = (if cur = [] then [] else [cur])"
| "split_acc cur (c # cs) =
     (if py_isspace c then (if cur = [] then split_acc [] cs else cur # split_acc [] cs)
      else split_acc (cur @ [c]) cs)"

definition str_split :: "string \<Rightarrow> string list" where
  \<comment> \<open>\<^verbatim>\<open>s.split()\<close>\<close>
  "str_split s = split_acc [] s"

function str_replace :: "string \<Rightarrow> string \<Rightarrow> string \<Rightarrow> string" where
  \<comment> \<open>\<^verbatim>\<open>s.replace(old, new)\<close>\<close>
  "str_replace s old new =
     (if old = [] then new @ concat (map (\<lambda>c. c # new) s)
      else if s = [] then []
      else if is_prefix old s then new @ str_replace (drop (length old) s) old new
      else hd s # str_replace (tl s) old new)"
  by pat_completeness auto
termination
  by (relation "measure (\<lambda>(s, old, new). length s)") auto

declare str_replace.simps [simp del]

definition path_name :: "path \<Rightarrow> string" where
  \<comment> \<open>\<^verbatim>\<open>Path(p).name\<close> of a path that does not end in a slash\<close>
  "path_name p = rev (takeWhile (\<lambda>c. c \<noteq> CHR ''/'') (rev p))"

definition path_stem :: "path \<Rightarrow> string" where
  \<comment> \<open>\<^verbatim>\<open>Path(p).stem\<close>: the name without its last suffix\<close>
  "path_stem p =
     (let name = path_name p;
          suffix = takeWhile (\<lambda>c. c \<noteq> CHR ''.'') (rev name);
          i = length name - length suffix - 1
      in if CHR ''.'' \<in> set name \<and> 0 < i \<and> suffix \<noteq> [] then take i name else name)"

definition temp_path :: "string \<Rightarrow> string \<Rightarrow> path" where
  \<comment> \<open>a file of \<^verbatim>\<open>dir='/tmp/executions'\<close>\<close>
  "temp_path name suffix = ''/tmp/executions/'' @ name @ suffix"

fun mkstemp :: "string list \<Rightarrow> string \<Rightarrow> (path \<rightharpoonup> string) \<Rightarrow> path option" where
  \<comment> \<open>the first drawn name that no file has; \<open>None\<close> when every one is taken\<close>
  "mkstemp [] suffix fs = None"
| "mkstemp (n # ns) suffix fs =
     (if fs (temp_path n suffix) = None then Some (temp_path n suffix) else mkstemp ns suffix fs)"

definition named_temporary_file :: "world \<Rightarrow> string \<Rightarrow> os_state \<Rightarrow> py_error + path" where
  \<comment> \<open>\<^verbatim>\<open>tempfile.NamedTemporaryFile(mode='w', suffix=..., delete=False, dir='/tmp/executions')\<close>\<close>
  "named_temporary_file w suffix s =
     (case tmp_error w of
        Some msg \<Rightarrow> Inl (OSError msg)
      | None \<Rightarrow>
          (case mkstemp (tmp_names w) suffix (files s) of
             None \<Rightarrow> Inl FileExistsError
           | Some p \<Rightarrow> Inr p))"

subsection \<open>\<^verbatim>\<open>CodeExecutor._build_command\<close> and \<^verbatim>\<open>CodeExecutor.execute_code\<close>\<close>

definition compile_step ::
  "world \<Rightarrow> string list \<Rightarrow> string list \<Rightarrow> os_state \<Rightarrow> (string + string list) \<times> os_state" where
  \<comment> \<open>the step that both compiled languages share: \<^verbatim>\<open>subprocess.run(compile_cmd,
      capture_output=True, text=True)\<close>, the test of its return code, and the command to
      run; \<open>Inl\<close> is the message of the exception raised\<close>
  "compile_step w compile_cmd run_cmd s =
     (case compiler w of
        Inl msg \<Rightarrow> (Inl msg, s)
      | Inr c \<Rightarrow>
          (let s' = s\<lparr>files := files s ++ c_written c, spawned := spawned s @ [compile_cmd]\<rparr>
           in if c_returncode c \<noteq> 0 then (Inl (''Compilation failed: '' @ c_stderr c), s')
              else (Inr run_cmd, s')))"

definition build_command ::
  "world \<Rightarrow> string \<Rightarrow> path \<Rightarrow> os_state \<Rightarrow> (string + string list) \<times> os_state" where
  \<comment> \<open>\<open>Inl\<close> is the message of the exception raised; the first one is the \<^verbatim>\<open>KeyError\<close> of
      \<^verbatim>\<open>self.supported_languages[language]\<close>\<close>
  "build_command w language file_path s =
     (case supported_languages language of
        None \<Rightarrow> (Inl ([CHR 0x27] @ language @ [CHR 0x27]), s)
      | Some lang_info \<Rightarrow>
          if language = ''java'' then
            (let class_name = path_stem file_path
             in compile_step w [''javac'', file_path]
                  [''java'', ''-cp'', ''/tmp/executions'', class_name] s)
          else if language = ''cpp'' then
            (let output_file = str_replace file_path ''.cpp'' ''.out''
             in compile_step w [''g++'', file_path, ''-o'', output_file] [output_file] s)
          else (Inr (str_split (command lang_info) @ [file_path]), s))"

definition run_command :: "world \<Rightarrow> string list \<Rightarrow> os_state \<Rightarrow> exec_result \<times> os_state" where
  \<comment> \<open>\<^verbatim>\<open>subprocess.Popen\<close>, \<^verbatim>\<open>process.communicate(input, timeout=MAX_EXECUTION_TIME)\<close> and
      the handler of \<^verbatim>\<open>TimeoutExpired\<close>, which calls \<^verbatim>\<open>process.kill()\<close>; \<open>outcome ch\<close> is what
      \<^verbatim>\<open>communicate\<close> does. In each case the child is not running afterwards: it has
      ended by itself or \<^verbatim>\<open>kill\<close> has ended it\<close>
  "run_command w cmd s =
     (case program w of
        Inl msg \<Rightarrow> (Failed (''Execution failed: '' @ msg), s)
      | Inr ch \<Rightarrow>
          (let s' = s\<lparr>live := live s \<union> {pid ch} \<union> descendants ch, spawned := spawned s @ [cmd]\<rparr>
           in case outcome ch of
                Returns why out err return_code \<Rightarrow>
                  (Completed out err return_code (return_code = 0), s'\<lparr>live := live s' - {pid ch}\<rparr>)
              | TimeoutExpired \<Rightarrow> (Failed ''Execution timeout'', s'\<lparr>live := live s' - {pid ch}\<rparr>)
              | CommunicateRaises msg \<Rightarrow>
                  (Failed (''Execution failed: '' @ msg), s'\<lparr>live := live s' - {pid ch}\<rparr>)))"

definition execute_code ::
  "world \<Rightarrow> string \<Rightarrow> string \<Rightarrow> string \<Rightarrow> os_state \<Rightarrow> (py_error + exec_result) \<times> os_state" where
  \<comment> \<open>\<open>Inl\<close> is an exception that leaves the function (the file is created and written
      outside the \<^verbatim>\<open>try\<close>); what the child does with \<open>input_data\<close> on its stdin is part
      of \<open>program w\<close>\<close>
  "execute_code w language code input_data s =
     (case supported_languages language of
        None \<Rightarrow> (Inr (Failed (''Unsupported language: '' @ language)), s)
      | Some lang_info \<Rightarrow>
          (case named_temporary_file w (''.'' @ extension lang_info) s of
             Inl err \<Rightarrow> (Inl err, s)
           | Inr temp_file \<Rightarrow>
               (case write_error w of
                  Some msg \<Rightarrow> (Inl (OSError msg), s\<lparr>files := (files s)(temp_file \<mapsto> [])\<rparr>)
                | None \<Rightarrow>
                    (let s1 = s\<lparr>files := (files s)(temp_file \<mapsto> code)\<rparr>;
                         (result, s2) =
                           (case build_command w language temp_file s1 of
                              (Inl msg, s') \<Rightarrow> (Failed (''Execution failed: '' @ msg), s')
                            | (Inr cmd, s') \<Rightarrow> run_command w cmd s')
                     in (Inr result, s2\<lparr>files := (files s2)(temp_file := None)\<rparr>)))))"

subsection \<open>The \<^verbatim>\<open>/execute\<close> endpoint\<close>

record request =
  req_language :: "string option"
  req_code :: "string option"
  req_input :: "string option"

datatype http_response =
    Ok200 exec_result
      \<comment> \<open>\<^verbatim>\<open>jsonify(result)\<close>\<close>
  | BadRequest400
      \<comment> \<open>\<^verbatim>\<open>{"error": "Missing language or code"}\<close> with status 400\<close>
  | InternalServerError500
      \<comment> \<open>an exception left \<^verbatim>\<open>execute_code\<close>\<close>

definition execute_endpoint :: "world \<Rightarrow> request \<Rightarrow> os_state \<Rightarrow> http_response \<times> os_state" where
  "execute_endpoint w req s =
     (case (req_language req, req_code req) of
        (Some language, Some code) \<Rightarrow>
          (case execute_code w language code (case req_input req of None \<Rightarrow> [] | Some i \<Rightarrow> i) s of
             (Inl err, s') \<Rightarrow> (InternalServerError500, s')
           | (Inr result, s') \<Rightarrow> (Ok200 result, s'))
      | _ \<Rightarrow> (BadRequest400, s))"

section \<open>The grading service: \<^verbatim>\<open>code_execution_service.py\<close>\<close>

record call =
  net_error :: "string option"
    \<comment> \<open>\<^verbatim>\<open>requests.post\<close> raises a \<^verbatim>\<open>RequestException\<close> before the executor is reached\<close>
  exec_world :: world

definition executor_url :: string where
  "executor_url = ''http://code-executor:8080''"

definition svc_execute_code ::
  "call \<Rightarrow> string \<Rightarrow> string \<Rightarrow> string \<Rightarrow> os_state \<Rightarrow> exec_result \<times> os_state" where
  \<comment> \<open>\<^verbatim>\<open>CodeExecutionService._execute_code\<close>; the state is the executor's\<close>
  "svc_execute_code c language code input_data s =
     (case net_error c of
        Some msg \<Rightarrow> (Failed (''Execution service error: '' @ msg), s)
      | None \<Rightarrow>
          (case execute_endpoint (exec_world c)
                  \<lparr>req_language = Some language, req_code = Some code, req_input = Some input_data\<rparr> s of
             (Ok200 body, s') \<Rightarrow> (body, s')
           | (BadRequest400, s') \<Rightarrow>
               (Failed (''Execution service error: 400 Client Error: BAD REQUEST for url: ''
                        @ executor_url @ ''/execute''), s')
           | (InternalServerError500, s') \<Rightarrow>
               (Failed (''Execution service error: 500 Server Error: INTERNAL SERVER ERROR for url: ''
                        @ executor_url @ ''/execute''), s')))"

record test_case =
  tc_id :: "int option"
  tc_input :: "string option"
  tc_expected_output :: "string option"

record problem_data =
  test_cases :: "test_case list option"
  output_type :: "string option"

record test_result =
  test_case_id :: "int option"
  passed :: bool
  expected :: "string option"
  actual :: "string option"
  input :: "string option"
  execution_result :: exec_result

record grade =
  score :: py_number
  total_tests :: nat
  passed_tests :: nat
  detailed_results :: "test_result list"

definition get_or :: "'a option \<Rightarrow> 'a \<Rightarrow> 'a" where
  \<comment> \<open>\<^verbatim>\<open>d.get(key, default)\<close>, the option being \<^verbatim>\<open>d.get(key)\<close>\<close>
  "get_or v d = (case v of None \<Rightarrow> d | Some x \<Rightarrow> x)"

fun run_test_cases ::
  "(nat \<Rightarrow> call) \<Rightarrow> nat \<Rightarrow> problem_data \<Rightarrow> string \<Rightarrow> string \<Rightarrow> test_case list \<Rightarrow> os_state
   \<Rightarrow> test_result list \<times> os_state" where
  \<comment> \<open>the loop over the test cases; \<open>calls i\<close> is what happens in the request of the \<open>i\<close>-th
      iteration\<close>
  "run_test_cases calls i pd student_code language [] s = ([], s)"
| "run_test_cases calls i pd student_code language (tc # tcs) s =
     (let (er, s1) = svc_execute_code (calls i) language student_code (get_or (tc_input tc) []) s;
          ok = compare_outputs (get_or (result_stdout er) []) (get_or (tc_expected_output tc) [])
                 (get_or (output_type pd) ''exact'');
          r = \<lparr>test_case_id = tc_id tc, passed = ok, expected = tc_expected_output tc,
               actual = result_stdout er, input = tc_input tc, execution_result = er\<rparr>;
          (rs, s2) = run_test_cases calls (Suc i) pd student_code language tcs s1
      in (r # rs, s2))"

definition test_student_code ::
  "(nat \<Rightarrow> call) \<Rightarrow> problem_data \<Rightarrow> string \<Rightarrow> string \<Rightarrow> os_state \<Rightarrow> (py_error + grade) \<times> os_state" where
  \<comment> \<open>\<^verbatim>\<open>CodeExecutionService.test_student_code\<close>\<close>
  "test_student_code calls pd student_code language s =
     (let (results, s') = run_test_cases calls 0 pd student_code language (get_or (test_cases pd) []) s;
          passed_count = length (filter passed results);
          total_score =
            (if results \<noteq> [] then
               (case int_truediv (int passed_count) (int (length results)) of
                  Inl err \<Rightarrow> Inl err
                | Inr q \<Rightarrow> map_sum id PyFloat (float_times_int q 100))
             else Inr (PyInt 0))
      in (case total_score of
            Inl err \<Rightarrow> (Inl err, s')
          | Inr sc \<Rightarrow>
              (Inr \<lparr>score = sc, total_tests = length results, passed_tests = passed_count,
                    detailed_results = results\<rparr>, s')))"

subsection \<open>Scenarios\<close>

text \<open>Concrete states, worlds and problems, used where a statement is evaluated.\<close>

definition s0 :: os_state where
  "s0 = \<lparr>files = Map.empty, live = {}, spawned = []\<rparr>"

definition ends_with :: "wait_outcome \<Rightarrow> world" where
  "ends_with oc =
     \<lparr>tmp_names = [''tmpk3x9w_2a''], tmp_error = None, write_error = None,
      compiler = Inl ''not used'',
      program = Inr \<lparr>pid = 4711, descendants = {}, outcome = oc\<rparr>\<rparr>"

definition echo_call :: "string \<Rightarrow> call" where
  "echo_call line = \<lparr>net_error = None, exec_world = ends_with (Returns Ordinary (line @ [CHR 0x0A]) [] 0)\<rparr>"

definition four_cases :: problem_data where
  "four_cases =
     \<lparr>test_cases = Some
        [\<lparr>tc_id = Some 1, tc_input = Some ''1'', tc_expected_output = Some ''1''\<rparr>,
         \<lparr>tc_id = Some 2, tc_input = Some ''2'', tc_expected_output = Some ''2''\<rparr>,
         \<lparr>tc_id = Some 3, tc_input = Some ''3'', tc_expected_output = Some ''3''\<rparr>,
         \<lparr>tc_id = Some 4, tc_input = Some ''4'', tc_expected_output = Some ''5''\<rparr>],
      output_type = Some ''exact''\<rparr>"

definition broken_java :: call where
  "broken_java =
     \<lparr>net_error = None,
      exec_world =
        \<lparr>tmp_names = [''tmpk3x9w_2a''], tmp_error = None, write_error = None,
         compiler = Inr \<lparr>c_returncode = 1, c_stderr = ''error: ; expected'', c_written = Map.empty\<rparr>,
         program = Inl ''not used''\<rparr>\<rparr>"

definition one_case :: "string \<Rightarrow> problem_data" where
  "one_case want =
     \<lparr>test_cases = Some [\<lparr>tc_id = Some 1, tc_input = None, tc_expected_output = Some want\<rparr>],
      output_type = None\<rparr>"

definition offline :: call where
  "offline = \<lparr>net_error = Some ''Connection refused'', exec_world = ends_with TimeoutExpired\<rparr>"

definition two_cases :: problem_data where
  "two_cases =
     \<lparr>test_cases = Some
        [\<lparr>tc_id = Some 7, tc_input = Some ''a'', tc_expected_output = Some ''a''\<rparr>,
         \<lparr>tc_id = Some 8, tc_input = Some ''b'', tc_expected_output = Some ''b''\<rparr>],
      output_type = None\<rparr>"

definition crash_after_answer :: call where
  "crash_after_answer =
     \<lparr>net_error = None,
      exec_world = ends_with (Returns Ordinary [CHR ''4'', CHR ''2'', CHR 0x0A] ''ZeroDivisionError'' 1)\<rparr>"

definition pipe_held_open :: world where
  \<comment> \<open>the child 4711 prints and ends with exit code 0; process 4712, which it started,
      keeps its stdout open, so that \<^verbatim>\<open>communicate\<close> raises \<^verbatim>\<open>TimeoutExpired\<close>\<close>
  "pipe_held_open =
     \<lparr>tmp_names = [''tmpk3x9w_2a''], tmp_error = None, write_error = None,
      compiler = Inl ''not used'',
      program = Inr \<lparr>pid = 4711, descendants = {4712}, outcome = TimeoutExpired\<rparr>\<rparr>"

definition go_run_overrun :: world where
  "go_run_overrun =
     \<lparr>tmp_names = [''tmpk3x9w_2a''], tmp_error = None, write_error = None,
      compiler = Inl ''not used'',
      program = Inr \<lparr>pid = 4711, descendants = {4712}, outcome = TimeoutExpired\<rparr>\<rparr>"

definition compiles :: "string \<Rightarrow> (path \<rightharpoonup> string) \<Rightarrow> world" where
  "compiles name written =
     \<lparr>tmp_names = [name], tmp_error = None, write_error = None,
      compiler = Inr \<lparr>c_returncode = 0, c_stderr = [], c_written = written\<rparr>,
      program = Inr \<lparr>pid = 4711, descendants = {}, outcome = Returns Ordinary ''ok'' [] 0\<rparr>\<rparr>"

definition broken_cpp :: world where
  "broken_cpp =
     \<lparr>tmp_names = [''tmpk3x9w_2a''], tmp_error = None, write_error = None,
      compiler = Inr \<lparr>c_returncode = 1, c_stderr = ''error: expected ;'', c_written = Map.empty\<rparr>,
      program = Inr \<lparr>pid = 4711, descendants = {}, outcome = Returns Ordinary [] [] 0\<rparr>\<rparr>"

definition two_sources :: os_state where
  "two_sources =
     \<lparr>files = [''/tmp/executions/tmpaaaaaaaa.java'' \<mapsto> ''class Main { /* A */ }'',
               ''/tmp/executions/tmpbbbbbbbb.java'' \<mapsto> ''class Main { /* B */ }''],
      live = {}, spawned = []\<rparr>"

section \<open>Properties of the string and float operations\<close>

lemma is_prefix_iff: "is_prefix xs ys \<longleftrightarrow> (\<exists>zs. ys = xs @ zs)"
  by (induction xs ys rule: is_prefix.induct) auto

lemma str_contains_iff: "str_contains n h \<longleftrightarrow> (\<exists>pre post. h = pre @ n @ post)"
proof (induction h)
  case Nil
  then show ?case by auto
next
  case (Cons c cs)
  have "(\<exists>pre post. c # cs = pre @ n @ post) \<longleftrightarrow>
        (\<exists>post. c # cs = n @ post) \<or> (\<exists>pre post. cs = pre @ n @ post)"
  proof
    assume "\<exists>pre post. c # cs = pre @ n @ post"
    then obtain pre post where h: "c # cs = pre @ n @ post" by blast
    show "(\<exists>post. c # cs = n @ post) \<or> (\<exists>pre post. cs = pre @ n @ post)"
    proof (cases pre)
      case Nil
      with h show ?thesis by auto
    next
      case (Cons p ps)
      with h have "cs = ps @ n @ post" by simp
      then show ?thesis by blast
    qed
  next
    assume "(\<exists>post. c # cs = n @ post) \<or> (\<exists>pre post. cs = pre @ n @ post)"
    then show "\<exists>pre post. c # cs = pre @ n @ post"
    proof
      assume "\<exists>post. c # cs = n @ post"
      then obtain post where "c # cs = [] @ n @ post" by auto
      then show ?thesis by blast
    next
      assume "\<exists>pre post. cs = pre @ n @ post"
      then obtain pre post where "c # cs = (c # pre) @ n @ post" by auto
      then show ?thesis by blast
    qed
  qed
  with Cons show ?case by (simp add: is_prefix_iff)
qed




lemma str_contains_refl: "str_contains s s"
proof -
  have "s = [] @ s @ []" by simp
  then show ?thesis unfolding str_contains_iff by blast
qed

lemmas float_defs = py_float_def strtod_def parse_inf_or_nan_def parse_exponent_def split_sign_def
  decimal_to_double_def decimal_value_def digit_value_def is_digit_def float_ascii_def
  strip_with_def c_isspace_def c_tolower_def ascii_upper_def ascii_lower_def

lemmas round_defs = round_double_def floor_log2_def round_half_even_def bit_length.simps



lemma py_float_nan: "py_float ''nan'' = Some NaN"
  by (simp add: float_defs Let_def)

lemmas strip_defs = str_strip_def strip_with_def py_isspace_def

lemma py_float_examples:
  "py_float ''0.1'' = Some (Finite False 7205759403792794 (- 56))"
  "py_float ''9007199254740993'' = Some (Finite False 4503599627370496 1)"
  "py_float ''-1_000.5e-3'' = Some (Finite True 4505851427184181 (- 52))"
  "py_float '' +Infinity '' = Some (Infinity False)"
  "py_float ''1__0'' = None"
  "py_float ''1e'' = None"
  "py_float ''.'' = None"
  "py_float ''0x10'' = None"
  "py_float [] = None"
  by (simp_all add: float_defs round_defs Let_def)

subsection \<open>The rounding is correct\<close>

text \<open>
  \<open>round_double\<close> returns canonical values, and a finite result lies within half a unit in
  the last place of the quotient it rounds. Canonical values are equal as numbers exactly
  when they are equal as terms, up to the sign of zero, which is what \<open>float_eq\<close> tests.
\<close>

lemma bit_length_bounds: "0 < n \<Longrightarrow> 2 ^ (bit_length n - 1) \<le> n \<and> n < 2 ^ bit_length n"
proof (induction n rule: bit_length.induct)
  case (1 n)
  show ?case
  proof (cases "n div 2 = 0")
    case True
    with "1.prems" have "n = 1" by (simp add: div_eq_0_iff) 
    moreover have "bit_length (Suc 0) = Suc 0"
      by (simp add: bit_length.simps [of "Suc 0"] bit_length.simps [of 0])
    ultimately show ?thesis by simp
  next
    case False
    then have ih: "2 ^ (bit_length (n div 2) - 1) \<le> n div 2 \<and> n div 2 < 2 ^ bit_length (n div 2)"
      using "1.IH" "1.prems" by simp
    have b: "0 < bit_length (n div 2)" using False by (simp add: bit_length.simps [of "n div 2"])
    have s: "bit_length n = Suc (bit_length (n div 2))" using "1.prems" by (simp add: bit_length.simps [of n])
    have "(2::nat) ^ bit_length (n div 2) = 2 * 2 ^ (bit_length (n div 2) - 1)"
      using b by (cases "bit_length (n div 2)") simp_all
    then have "(2::nat) ^ bit_length (n div 2) \<le> 2 * (n div 2)" using ih by simp
    then have lo: "(2::nat) ^ (bit_length n - 1) \<le> n" using s by simp
    have "n < 2 * (n div 2) + 2" by simp
    with ih have hi: "n < 2 ^ bit_length n" using s by simp
    from lo hi show ?thesis ..
  qed
qed

lemma floor_log2_test:
  assumes "0 < d"
  shows "(if 0 \<le> k then d * 2 ^ nat k \<le> n else d \<le> n * 2 ^ nat (- k))
         \<longleftrightarrow> (2::real) powi k \<le> real n / real d"
proof (cases "0 \<le> k")
  case True
  have "d * 2 ^ nat k \<le> n \<longleftrightarrow> real d * 2 ^ nat k \<le> real n"
    by (metis of_nat_le_iff of_nat_mult of_nat_numeral of_nat_power)
  with True assms show ?thesis by (simp add: power_int_nonneg_exp field_simps)
next
  case False
  have "d \<le> n * 2 ^ nat (- k) \<longleftrightarrow> real d \<le> real n * 2 ^ nat (- k)"
    by (metis of_nat_le_iff of_nat_mult of_nat_numeral of_nat_power)
  with False assms show ?thesis by (simp add: power_int_def field_simps)
qed



lemma floor_log2_bounds:
  assumes "0 < n" "0 < d"
  shows "(2::real) powi (floor_log2 n d) \<le> real n / real d
         \<and> real n / real d < 2 powi (floor_log2 n d + 1)"
proof -
  define a where "a = bit_length n"
  define b where "b = bit_length d"
  define k where "k = int a - int b"
  define x where "x = real n / real d"
  have a: "(2::real) ^ (a - 1) \<le> real n" "real n < 2 ^ a"
    using bit_length_bounds [OF assms(1)] unfolding a_def
    by (metis of_nat_le_iff of_nat_numeral of_nat_power, metis of_nat_less_iff of_nat_numeral of_nat_power)
  have b: "(2::real) ^ (b - 1) \<le> real d" "real d < 2 ^ b"
    using bit_length_bounds [OF assms(2)] unfolding b_def
    by (metis of_nat_le_iff of_nat_numeral of_nat_power, metis of_nat_less_iff of_nat_numeral of_nat_power)
  have apos: "0 < a" using assms(1) by (simp add: a_def bit_length.simps [of n])
  have bpos: "0 < b" using assms(2) by (simp add: b_def bit_length.simps [of d])
  have ia: "int a - 1 = int (a - 1)" using apos by simp
  have ib: "int b - 1 = int (b - 1)" using bpos by simp
  have a0: "(2::real) powi (int a - 1) \<le> real n" unfolding ia using a(1) by simp
  have a1: "real n < 2 powi (int a)" using a(2) by simp
  have b0: "(2::real) powi (int b - 1) \<le> real d" unfolding ib using b(1) by simp
  have b1: "real d < 2 powi (int b)" using b(2) by simp
  have up: "x < 2 powi (k + 1)"
  proof -
    have "real n / real d < 2 powi (int a) / 2 powi (int b - 1)"
      using a1 b0 by (intro frac_less) simp_all
    also have "\<dots> = 2 powi (int a - (int b - 1))"
      by (rule power_int_diff [symmetric]) simp
    also have "int a - (int b - 1) = k + 1" by (simp add: k_def)
    finally show ?thesis by (simp add: x_def)
  qed
  have lo: "2 powi (k - 1) < x"
  proof -
    have "(2::real) powi (int a - 1 - int b) = 2 powi (int a - 1) / 2 powi (int b)"
      by (rule power_int_diff) simp
    also have "\<dots> < real n / real d"
      using a0 b1 assms(2) by (intro frac_less2) simp_all
    finally have "(2::real) powi (int a - 1 - int b) < x" by (simp add: x_def)
    moreover have "int a - 1 - int b = k - 1" by (simp add: k_def)
    ultimately show ?thesis by simp
  qed
  have t: "floor_log2 n d = (if 2 powi k \<le> x then k else k - 1)"
    unfolding floor_log2_def Let_def a_def [symmetric] b_def [symmetric] k_def [symmetric] x_def
    using floor_log2_test [OF assms(2), of k n] by simp
  show ?thesis
  proof (cases "2 powi k \<le> x")
    case True
    with t up show ?thesis by (simp add: x_def)
  next
    case False
    with t lo show ?thesis by (simp add: x_def)
  qed
qed


lemma round_half_even_error:
  assumes "0 < den"
  shows "\<bar>real (round_half_even num den) - real num / real den\<bar> \<le> 1 / 2"
proof -
  define q where "q = num div den"
  define r where "r = num mod den"
  have n: "real num = real q * real den + real r"
    unfolding q_def r_def by (metis div_mult_mod_eq of_nat_add of_nat_mult)
  have r: "r < den" unfolding r_def using assms by simp
  have d: "0 < real den" using assms by simp
  have x: "real num / real den = real q + real r / real den"
    using d by (simp add: n field_simps)
  show ?thesis
  proof (cases "den < 2 * r \<or> (2 * r = den \<and> odd q)")
    case True
    then have "round_half_even num den = q + 1"
      by (simp add: round_half_even_def Let_def q_def r_def)
    moreover have "real den \<le> 2 * real r" using True by linarith
    moreover have "real r < real den" using r by simp
    ultimately show ?thesis using d by (simp add: x field_simps abs_if)
  next
    case False
    then have "round_half_even num den = q"
      by (simp add: round_half_even_def Let_def q_def r_def)
    moreover have "2 * real r \<le> real den" using False by linarith
    ultimately show ?thesis using d by (simp add: x field_simps abs_if)
  qed
qed

lemma round_half_even_range:
  assumes "0 < den"
  shows "lo * den \<le> num \<Longrightarrow> lo \<le> round_half_even num den"
    and "num < hi * den \<Longrightarrow> round_half_even num den \<le> hi"
proof -
  have q: "num div den \<le> round_half_even num den" "round_half_even num den \<le> num div den + 1"
    by (simp_all add: round_half_even_def Let_def)
  show "lo * den \<le> num \<Longrightarrow> lo \<le> round_half_even num den"
    using q(1) assms by (metis div_le_mono div_mult_self_is_m le_trans)
  show "num < hi * den \<Longrightarrow> round_half_even num den \<le> hi"
    using q(2) assms by (metis Suc_eq_plus1 Suc_leI le_trans less_mult_imp_div_less)
qed

lemma scaled_quotient:
  assumes "0 < d"
  shows "real (if 0 \<le> e then n else n * 2 ^ nat (- e)) / real (if 0 \<le> e then d * 2 ^ nat e else d)
         = (real n / real d) * 2 powi (- e)"
proof (cases "0 \<le> e")
  case True
  then have "(2::real) powi (- e) = 1 / 2 ^ nat e"
    by (simp add: power_int_minus_divide power_int_nonneg_exp)
  with True assms show ?thesis by simp
next
  case False
  then have "(2::real) powi (- e) = 2 ^ nat (- e)"
    by (simp add: power_int_nonneg_exp)
  with False assms show ?thesis by simp
qed


lemma round_double_correct:
  assumes "0 < d" and "round_double s n d = Finite s' m e"
  shows "s' = s \<and> m < 2 ^ 53 \<and> - 1074 \<le> e \<and> e \<le> 971 \<and> (e = - 1074 \<or> 2 ^ 52 \<le> m)
         \<and> \<bar>real m * 2 powi e - real n / real d\<bar> \<le> 2 powi (e - 1)"
proof (cases "n = 0")
  case True
  with assms(2) show ?thesis by (simp add: round_double_def)
next
  case False
  then have npos: "0 < n" by simp
  define k where "k = floor_log2 n d"
  define e0 where "e0 = max (k - 52) (- 1074)"
  define num where "num = (if 0 \<le> e0 then n else n * 2 ^ nat (- e0))"
  define den where "den = (if 0 \<le> e0 then d * 2 ^ nat e0 else d)"
  define m0 where "m0 = round_half_even num den"
  define x where "x = real n / real d"
  define y where "y = x * 2 powi (- e0)"
  have den: "0 < den" using assms(1) by (simp add: den_def)
  have y: "real num / real den = y"
    unfolding num_def den_def y_def x_def by (rule scaled_quotient [OF assms(1)])
  have kb: "2 powi k \<le> x" "x < 2 powi (k + 1)"
    using floor_log2_bounds [OF npos assms(1)] by (simp_all add: k_def x_def)
  have p: "0 < (2::real) powi (- e0)" by simp
  have "y < 2 powi (k + 1) * 2 powi (- e0)"
    unfolding y_def using kb(2) p by (rule mult_strict_right_mono)
  also have "\<dots> = 2 powi (k + 1 - e0)"
    by (simp add: power_int_add [symmetric])
  also have "\<dots> \<le> 2 powi 53"
    by (rule power_int_increasing) (simp_all add: e0_def)
  finally have yhi: "y < 2 ^ 53" by simp
  have ylo: "2 ^ 52 \<le> y" if "e0 = k - 52"
  proof -
    have "2 powi k * 2 powi (- e0) \<le> y"
      unfolding y_def using kb(1) p by (intro mult_right_mono) simp_all
    moreover have "2 powi k * 2 powi (- e0) = (2::real) powi (k - e0)"
      by (simp add: power_int_add [symmetric])
    moreover have "k - e0 = 52" using that by simp
    ultimately show ?thesis by simp
  qed
  have "real num < 2 ^ 53 * real den"
    using yhi den y by (simp add: field_simps)
  then have "num < 2 ^ 53 * den"
    by (metis of_nat_less_iff of_nat_mult of_nat_numeral of_nat_power)
  then have m0hi: "m0 \<le> 2 ^ 53"
    unfolding m0_def by (rule round_half_even_range(2) [OF den])
  have m0lo: "2 ^ 52 \<le> m0" if "e0 = k - 52"
  proof -
    have "2 ^ 52 * real den \<le> real num"
      using ylo [OF that] den y by (simp add: field_simps)
    then have "2 ^ 52 * den \<le> num"
      by (metis of_nat_le_iff of_nat_mult of_nat_numeral of_nat_power)
    then show ?thesis unfolding m0_def by (rule round_half_even_range(1) [OF den])
  qed
  have err: "\<bar>real m0 - y\<bar> \<le> 1 / 2"
    using round_half_even_error [OF den, of num] by (simp add: m0_def y)
  have err2: "\<bar>real m0 * 2 powi e0 - x\<bar> \<le> 2 powi (e0 - 1)"
  proof -
    have "real m0 * 2 powi e0 - x = (real m0 - y) * 2 powi e0"
      by (simp add: y_def algebra_simps power_int_add [symmetric])
    then have "\<bar>real m0 * 2 powi e0 - x\<bar> = \<bar>real m0 - y\<bar> * 2 powi e0"
      by (simp add: abs_mult)
    also have "\<dots> \<le> (1 / 2) * 2 powi e0"
      using err by (intro mult_right_mono) simp_all
    also have "\<dots> = 2 powi (e0 - 1)"
      by (simp add: power_int_diff)
    finally show ?thesis .
  qed
  have rd: "round_double s n d =
      (if 971 < (if m0 = 2 ^ 53 then e0 + 1 else e0) then Infinity s
       else Finite s (if m0 = 2 ^ 53 then 2 ^ 52 else m0) (if m0 = 2 ^ 53 then e0 + 1 else e0))"
    using False
    by (simp add: round_double_def Let_def k_def e0_def m0_def num_def den_def)
  have e0lo: "- 1074 \<le> e0" by (simp add: e0_def)
  show ?thesis
  proof (cases "m0 = 2 ^ 53")
    case True
    with rd assms(2) have r: "s' = s" "m = 2 ^ 52" "e = e0 + 1" "e \<le> 971"
      by (simp_all split: if_splits)
    have "real m * 2 powi e = real m0 * 2 powi e0"
      by (simp add: r True power_int_add)
    moreover have "(2::real) powi (e0 - 1) \<le> 2 powi (e - 1)"
      by (rule power_int_increasing) (simp_all add: r)
    ultimately have "\<bar>real m * 2 powi e - real n / real d\<bar> \<le> 2 powi (e - 1)"
      using err2 by (simp add: x_def)
    with r e0lo show ?thesis by simp
  next
    case False
    with rd assms(2) have r: "s' = s" "m = m0" "e = e0" "e \<le> 971"
      by (simp_all split: if_splits)
    have "m < 2 ^ 53" using m0hi False r by simp
    moreover have "e = - 1074 \<or> 2 ^ 52 \<le> m"
      using m0lo r by (auto simp add: e0_def max_def split: if_splits)
    ultimately show ?thesis using r e0lo err2 by (simp add: x_def)
  qed
qed

section \<open>The comparison modes\<close>

lemma compare_exact: "compare_outputs a e ''exact'' \<longleftrightarrow> str_strip a = str_strip e"
  by (simp add: compare_outputs_def)

lemma compare_numeric:
  "compare_outputs a e ''numeric'' \<longleftrightarrow>
     (case (py_float (str_strip a), py_float (str_strip e)) of
        (Some x, Some y) \<Rightarrow> float_eq x y
      | _ \<Rightarrow> str_strip a = str_strip e)"
  by (simp add: compare_outputs_def Let_def split: option.splits)








text \<open>
  Claim C10. The numeric mode is not reflexive: the string \<^verbatim>\<open>nan\<close> parses as a float, and
  comparing it with itself in numeric mode fails, because a NaN equals nothing. The exact
  and the contains mode accept every string compared with itself.
\<close>

theorem numeric_mode_not_reflexive:
  "py_float ''nan'' = Some NaN
   \<and> \<not> compare_outputs ''nan'' ''nan'' ''numeric''
   \<and> (\<exists>s. py_float s \<noteq> None \<and> \<not> compare_outputs s s ''numeric'')
   \<and> (\<forall>s. compare_outputs s s ''exact'')
   \<and> (\<forall>s. compare_outputs s s ''contains'')"
proof -
  have n: "\<not> compare_outputs ''nan'' ''nan'' ''numeric''"
    by (simp add: compare_numeric strip_defs py_float_nan)
  have "py_float ''nan'' \<noteq> None" by (simp add: py_float_nan)
  with n have ex: "\<exists>s. py_float s \<noteq> None \<and> \<not> compare_outputs s s ''numeric''" by blast
  have c: "\<forall>s. compare_outputs s s ''contains''"
    by (simp add: compare_outputs_def str_contains_refl)
  from n ex c show ?thesis by (simp add: py_float_nan compare_exact)
qed

section \<open>The grading run\<close>

lemma bit_length_mono: "m \<le> n \<Longrightarrow> bit_length m \<le> bit_length n"
proof (induction n arbitrary: m rule: bit_length.induct)
  case (1 n)
  show ?case
  proof (cases "m = 0")
    case True
    then show ?thesis by (simp add: bit_length.simps)
  next
    case False
    with "1.prems" have n: "n \<noteq> 0" by simp
    have "m div 2 \<le> n div 2" using "1.prems" by (rule div_le_mono)
    with n have "bit_length (m div 2) \<le> bit_length (n div 2)" by (rule "1.IH")
    with False n show ?thesis by (simp add: bit_length.simps [of m] bit_length.simps [of n])
  qed
qed

lemma floor_log2_le_0: "p \<le> n \<Longrightarrow> floor_log2 p n \<le> 0"
  using bit_length_mono [of p n] by (simp add: floor_log2_def Let_def)

lemma round_double_quotient_finite:
  assumes "p \<le> n"
  shows "\<exists>m e. round_double sg p n = Finite sg m e"
proof (cases "p = 0")
  case True
  then show ?thesis by (simp add: round_double_def)
next
  case False
  have "max (floor_log2 p n - 52) (- 1074) \<le> - 52"
    using floor_log2_le_0 [OF assms] by simp
  then show ?thesis using False by (simp add: round_double_def Let_def)
qed

lemma int_truediv_quotient:
  assumes "0 < n" "p \<le> n"
  shows "int_truediv (int p) (int n) = Inr (round_double False p n)"
proof -
  obtain m e where "round_double False p n = Finite False m e"
    using round_double_quotient_finite [OF assms(2)] by blast
  with assms(1) show ?thesis by (simp add: int_truediv_def)
qed

lemma hundred: "round_double False 100 1 = Finite False 7036874417766400 (- 46)"
  by (simp add: round_defs Let_def)

lemma int_to_float_100: "int_to_float 100 = Inr (round_double False 100 1)"
  using hundred by (simp add: int_to_float_def)

lemma run_test_cases_length:
  "length (fst (run_test_cases calls i pd code lang tcs s)) = length tcs"
  by (induction tcs arbitrary: i s) (simp_all add: Let_def split_beta)

lemma run_test_cases_ids:
  "map test_case_id (fst (run_test_cases calls i pd code lang tcs s)) = map tc_id tcs"
  by (induction tcs arbitrary: i s) (simp_all add: Let_def split_beta)

lemma run_test_cases_inputs:
  "map input (fst (run_test_cases calls i pd code lang tcs s)) = map tc_input tcs"
  by (induction tcs arbitrary: i s) (simp_all add: Let_def split_beta)

lemma run_test_cases_expected:
  "map expected (fst (run_test_cases calls i pd code lang tcs s)) = map tc_expected_output tcs"
  by (induction tcs arbitrary: i s) (simp_all add: Let_def split_beta)

lemma test_student_code_eq:
  "test_student_code calls pd code lang s =
     (let rs = fst (run_test_cases calls 0 pd code lang (get_or (test_cases pd) []) s)
      in (Inr \<lparr>score = (if length rs = 0 then PyInt 0
                        else PyFloat (float_mul (round_double False (length (filter passed rs)) (length rs))
                                        (round_double False 100 1))),
               total_tests = length rs, passed_tests = length (filter passed rs),
               detailed_results = rs\<rparr>,
          snd (run_test_cases calls 0 pd code lang (get_or (test_cases pd) []) s)))"
proof -
  define rs where "rs = fst (run_test_cases calls 0 pd code lang (get_or (test_cases pd) []) s)"
  have q: "rs \<noteq> [] \<Longrightarrow> int_truediv (int (length (filter passed rs))) (int (length rs))
        = Inr (round_double False (length (filter passed rs)) (length rs))"
    by (rule int_truediv_quotient) simp_all
  show ?thesis
    unfolding test_student_code_def Let_def rs_def [symmetric]
    by (cases "rs = []")
       (simp_all add: q float_times_int_def int_to_float_100 split_beta rs_def [symmetric] del: One_nat_def)
qed

lemmas exec_defs = svc_execute_code_def execute_endpoint_def execute_code_def supported_languages_def
  named_temporary_file_def temp_path_def build_command_def compile_step_def run_command_def
  str_split_def py_isspace_def get_or_def

lemma python_run:
  "files s ''/tmp/executions/tmpk3x9w_2a.py'' = None \<Longrightarrow>
   svc_execute_code \<lparr>net_error = None, exec_world = ends_with (Returns why out err rc)\<rparr> ''python'' code inp s =
     (Completed out err rc (rc = 0),
      s\<lparr>files := (files s)(''/tmp/executions/tmpk3x9w_2a.py'' := None), live := (live s \<union> {4711}) - {4711},
        spawned := spawned s @ [[''python3'', ''/tmp/executions/tmpk3x9w_2a.py'']]\<rparr>)"
  by (simp add: exec_defs ends_with_def Let_def)

lemma java_compile_failure:
  "files s ''/tmp/executions/tmpk3x9w_2a.java'' = None \<Longrightarrow>
   fst (svc_execute_code broken_java ''java'' code inp s) =
     Failed ''Execution failed: Compilation failed: error: ; expected''"
  by (simp add: exec_defs broken_java_def Let_def)

lemma s0_files: "files s0 p = None"
  by (simp add: s0_def)

lemma python_run_fst:
  "files s ''/tmp/executions/tmpk3x9w_2a.py'' = None \<Longrightarrow>
   fst (svc_execute_code \<lparr>net_error = None, exec_world = ends_with (Returns why out err rc)\<rparr> ''python'' code inp s)
     = Completed out err rc (rc = 0)"
  by (simp add: python_run)

lemma python_run_files:
  "files s ''/tmp/executions/tmpk3x9w_2a.py'' = None \<Longrightarrow>
   files (snd (svc_execute_code \<lparr>net_error = None, exec_world = ends_with (Returns why out err rc)\<rparr> ''python'' code inp s))
      ''/tmp/executions/tmpk3x9w_2a.py'' = None"
  by (simp add: python_run)

lemma echo_grading:
  "map passed (fst (run_test_cases (\<lambda>i. echo_call ([''1'', ''2'', ''3'', ''4''] ! i)) 0 four_cases
        ''print(input())'' ''python'' (get_or (test_cases four_cases) []) s0))
   = [True, True, True, False]"
  by (simp add: four_cases_def echo_call_def get_or_def Let_def split_beta python_run_fst
      python_run_files s0_files compare_exact strip_defs)

lemma seventy_five:
  "float_mul (round_double False 3 4) (round_double False 100 1) = Finite False 5277655813324800 (- 46)"
  by (simp add: round_defs Let_def)

lemma py_float_75: "py_float ''75.0'' = Some (Finite False 5277655813324800 (- 46))"
  by (simp add: float_defs round_defs Let_def)

text \<open>
  Claim C7. A grading run never raises: it returns a summary whose \<open>total_tests\<close> is the
  number of test cases and whose \<open>passed_tests\<close> is the number of results that passed. The
  score is the int \<open>0\<close> when there is no test case, and otherwise the float product of the
  correctly rounded quotient \<open>passed_tests / total_tests\<close> and \<open>100.0\<close>, which is how Python
  evaluates \<^verbatim>\<open>(passed_count / len(results)) * 100\<close>. With four test cases of which three
  pass the score is the float \<open>75.0\<close>.
\<close>

theorem score_is_percentage_of_passed:
  "\<exists>g s'. test_student_code calls pd code lang s = (Inr g, s')
     \<and> detailed_results g = fst (run_test_cases calls 0 pd code lang (get_or (test_cases pd) []) s)
     \<and> total_tests g = length (get_or (test_cases pd) [])
     \<and> passed_tests g = length (filter passed (detailed_results g))
     \<and> score g =
         (if total_tests g = 0 then PyInt 0
          else PyFloat (float_mul (round_double False (passed_tests g) (total_tests g))
                          (round_double False 100 1)))
     \<and> (total_tests g = 4 \<and> passed_tests g = 3 \<longrightarrow>
          score g = PyFloat (Finite False 5277655813324800 (- 46)))
     \<and> py_float ''75.0'' = Some (Finite False 5277655813324800 (- 46))"
proof -
  define rs where "rs = fst (run_test_cases calls 0 pd code lang (get_or (test_cases pd) []) s)"
  define g where "g = \<lparr>score = (if length rs = 0 then PyInt 0
                        else PyFloat (float_mul (round_double False (length (filter passed rs)) (length rs))
                                        (round_double False 100 1))),
               total_tests = length rs, passed_tests = length (filter passed rs),
               detailed_results = rs\<rparr>"
  have run: "test_student_code calls pd code lang s =
      (Inr g, snd (run_test_cases calls 0 pd code lang (get_or (test_cases pd) []) s))"
    by (simp add: test_student_code_eq Let_def g_def rs_def)
  have len: "total_tests g = length (get_or (test_cases pd) [])"
    by (simp add: g_def rs_def run_test_cases_length)
  have sc: "score g =
         (if total_tests g = 0 then PyInt 0
          else PyFloat (float_mul (round_double False (passed_tests g) (total_tests g))
                          (round_double False 100 1)))"
    by (simp add: g_def del: One_nat_def)
  have ex: "total_tests g = 4 \<and> passed_tests g = 3 \<longrightarrow>
          score g = PyFloat (Finite False 5277655813324800 (- 46))"
    using seventy_five by (simp add: sc del: One_nat_def)
  have "detailed_results g = rs" "passed_tests g = length (filter passed (detailed_results g))"
    by (simp_all add: g_def)
  with run len sc ex py_float_75 show ?thesis
    unfolding rs_def by (intro exI [of _ g] exI conjI)
qed

theorem score_is_percentage_of_passed_witness:
  "\<exists>g s'. test_student_code (\<lambda>i. echo_call ([''1'', ''2'', ''3'', ''4''] ! i)) four_cases
              ''print(input())'' ''python'' s0 = (Inr g, s')
     \<and> map passed (detailed_results g) = [True, True, True, False]
     \<and> total_tests g = 4 \<and> passed_tests g = 3
     \<and> score g = PyFloat (Finite False 5277655813324800 (- 46))"
proof -
  obtain g s' where g:
    "test_student_code (\<lambda>i. echo_call ([''1'', ''2'', ''3'', ''4''] ! i)) four_cases
        ''print(input())'' ''python'' s0 = (Inr g, s')"
    "detailed_results g = fst (run_test_cases (\<lambda>i. echo_call ([''1'', ''2'', ''3'', ''4''] ! i)) 0 four_cases
        ''print(input())'' ''python'' (get_or (test_cases four_cases) []) s0)"
    "total_tests g = length (get_or (test_cases four_cases) [])"
    "passed_tests g = length (filter passed (detailed_results g))"
    "total_tests g = 4 \<and> passed_tests g = 3 \<longrightarrow>
          score g = PyFloat (Finite False 5277655813324800 (- 46))"
    using score_is_percentage_of_passed
      [of "\<lambda>i. echo_call ([''1'', ''2'', ''3'', ''4''] ! i)" four_cases "''print(input())''" "''python''" s0]
    by blast
  have p: "map passed (detailed_results g) = [True, True, True, False]"
    using g(2) echo_grading by simp
  have t: "total_tests g = 4" using g(3) by (simp add: four_cases_def get_or_def)
  have "length (filter passed (detailed_results g)) = length (filter id (map passed (detailed_results g)))"
    by (simp add: filter_map comp_def)
  with p g(4) have n: "passed_tests g = 3" by simp
  from g(1) p t n g(5) show ?thesis by (intro exI [of _ g] exI [of _ s'] conjI) simp_all
qed

lemma test_student_code_returns:
  "\<exists>g s'. test_student_code calls pd code lang s = (Inr g, s')
     \<and> detailed_results g = fst (run_test_cases calls 0 pd code lang (get_or (test_cases pd) []) s)"
  by (simp add: test_student_code_eq Let_def)

lemma offline_run:
  "svc_execute_code offline lang code inp s = (Failed ''Execution service error: Connection refused'', s)"
  by (simp add: svc_execute_code_def offline_def)

lemma offline_then_echo:
  "map execution_result
     (fst (run_test_cases (\<lambda>i. [offline, echo_call ''b''] ! i) 0 two_cases code ''python''
            (get_or (test_cases two_cases) []) s0))
   = [Failed ''Execution service error: Connection refused'', Completed [CHR ''b'', CHR 0x0A] [] 0 True]"
  by (simp add: two_cases_def echo_call_def get_or_def Let_def split_beta python_run_fst
      s0_files offline_run)

text \<open>
  Claim C8. Whatever happens in the requests (\<open>calls\<close> is arbitrary: the request may fail,
  the executor may report a compile error, a timeout or a nonzero exit), a grading run
  returns, and its results are one per test case in the order of the test cases: their ids,
  inputs and expected outputs are those of the test cases. In the evaluated run the first
  request fails and the second test case is still executed.
\<close>

theorem one_result_per_test_case:
  "\<exists>g s'. test_student_code calls pd code lang s = (Inr g, s')
     \<and> length (detailed_results g) = length (get_or (test_cases pd) [])
     \<and> map test_case_id (detailed_results g) = map tc_id (get_or (test_cases pd) [])
     \<and> map input (detailed_results g) = map tc_input (get_or (test_cases pd) [])
     \<and> map expected (detailed_results g) = map tc_expected_output (get_or (test_cases pd) [])
     \<and> map execution_result
          (fst (run_test_cases (\<lambda>i. [offline, echo_call ''b''] ! i) 0 two_cases code ''python''
                 (get_or (test_cases two_cases) []) s0))
        = [Failed ''Execution service error: Connection refused'',
           Completed [CHR ''b'', CHR 0x0A] [] 0 True]"
proof -
  obtain g s' where g: "test_student_code calls pd code lang s = (Inr g, s')"
    "detailed_results g = fst (run_test_cases calls 0 pd code lang (get_or (test_cases pd) []) s)"
    using test_student_code_returns by blast
  show ?thesis
    using g offline_then_echo
    by (intro exI [of _ g] exI [of _ s'] conjI)
       (simp_all add: run_test_cases_length run_test_cases_ids run_test_cases_inputs
          run_test_cases_expected)
qed

lemma run_test_cases_failed:
  "\<forall>r\<in>set (fst (run_test_cases calls i pd code lang tcs s)). \<forall>msg.
      execution_result r = Failed msg \<longrightarrow>
      passed r = compare_outputs [] (get_or (expected r) []) (get_or (output_type pd) ''exact'')"
  by (induction tcs arbitrary: i s) (auto simp add: Let_def split_beta get_or_def)

lemma run_test_cases_completed:
  "\<forall>r\<in>set (fst (run_test_cases calls i pd code lang tcs s)). \<forall>out err rc ok.
      execution_result r = Completed out err rc ok \<longrightarrow>
      passed r = compare_outputs out (get_or (expected r) []) (get_or (output_type pd) ''exact'')"
  by (induction tcs arbitrary: i s) (auto simp add: Let_def split_beta get_or_def)

text \<open>
  Claim C1, as amended. The \<open>passed\<close> flag of a result is the comparison alone: of the
  captured stdout, the expected output and the comparison mode of the problem when the
  executor returned output, whatever the return code; and of the empty string, the expected
  output and the mode when the result is an error (compile failure, timeout, unsupported
  language, failed request). The outcome of the execution is not consulted.
\<close>

theorem passed_is_the_comparison_alone:
  "\<exists>g s'. test_student_code calls pd code lang s = (Inr g, s')
     \<and> map expected (detailed_results g) = map tc_expected_output (get_or (test_cases pd) [])
     \<and> (\<forall>r\<in>set (detailed_results g). \<forall>out err rc ok.
           execution_result r = Completed out err rc ok \<longrightarrow>
           passed r = compare_outputs out (get_or (expected r) []) (get_or (output_type pd) ''exact''))
     \<and> (\<forall>r\<in>set (detailed_results g). \<forall>msg.
           execution_result r = Failed msg \<longrightarrow>
           passed r = compare_outputs [] (get_or (expected r) []) (get_or (output_type pd) ''exact''))"
proof -
  obtain g s' where g: "test_student_code calls pd code lang s = (Inr g, s')"
    "detailed_results g = fst (run_test_cases calls 0 pd code lang (get_or (test_cases pd) []) s)"
    using test_student_code_returns by blast
  show ?thesis
    using g run_test_cases_failed [of calls 0 pd code lang "get_or (test_cases pd) []" s]
      run_test_cases_completed [of calls 0 pd code lang "get_or (test_cases pd) []" s]
    by (intro exI [of _ g] exI [of _ s'] conjI) (simp_all add: run_test_cases_expected)
qed

lemma broken_java_results:
  "fst (run_test_cases (\<lambda>i. broken_java) 0 (one_case want) code ''java''
          (get_or (test_cases (one_case want)) []) s0)
   = [\<lparr>test_case_id = Some 1,
        passed = compare_outputs [] want ''exact'',
        expected = Some want, actual = None, input = None,
        execution_result = Failed ''Execution failed: Compilation failed: error: ; expected''\<rparr>]"
  by (simp add: one_case_def get_or_def Let_def split_beta java_compile_failure s0_files)

theorem passed_is_the_comparison_alone_witness:
  "\<exists>g s'. test_student_code (\<lambda>i. broken_java) (one_case ''42'') ''class Main {'' ''java'' s0 = (Inr g, s')
     \<and> detailed_results g \<noteq> []
     \<and> (\<forall>r\<in>set (detailed_results g).
           execution_result r = Failed ''Execution failed: Compilation failed: error: ; expected''
           \<and> \<not> passed r)"
proof -
  obtain g s' where g:
    "test_student_code (\<lambda>i. broken_java) (one_case ''42'') ''class Main {'' ''java'' s0 = (Inr g, s')"
    "map expected (detailed_results g) = map tc_expected_output (get_or (test_cases (one_case ''42'')) [])"
    "\<forall>r\<in>set (detailed_results g). \<forall>msg.
           execution_result r = Failed msg \<longrightarrow>
           passed r = compare_outputs [] (get_or (expected r) []) (get_or (output_type (one_case ''42'')) ''exact'')"
    using passed_is_the_comparison_alone [of "\<lambda>i. broken_java" "one_case ''42''" "''class Main {''" "''java''" s0]
    by blast
  have rs: "detailed_results g =
     [\<lparr>test_case_id = Some 1, passed = compare_outputs [] ''42'' ''exact'',
        expected = Some ''42'', actual = None, input = None,
        execution_result = Failed ''Execution failed: Compilation failed: error: ; expected''\<rparr>]"
    using g(1) broken_java_results [of "''42''" "''class Main {''"]
      test_student_code_returns [of "\<lambda>i. broken_java" "one_case ''42''" "''class Main {''" "''java''" s0]
    by auto
  have c: "\<not> compare_outputs [] ''42'' ''exact''" by (simp add: compare_exact strip_defs)
  have "\<forall>r\<in>set (detailed_results g). \<not> passed r"
    using g(3) c by (simp add: rs one_case_def get_or_def)
  then show ?thesis
    using g(1) rs by (intro exI [of _ g] exI [of _ s'] conjI) simp_all
qed

lemma crash_results:
  "fst (run_test_cases (\<lambda>i. crash_after_answer) 0 (one_case ''42'') code ''python''
          (get_or (test_cases (one_case ''42'')) []) s0)
   = [\<lparr>test_case_id = Some 1, passed = True,
        expected = Some ''42'', actual = Some [CHR ''4'', CHR ''2'', CHR 0x0A], input = None,
        execution_result = Completed [CHR ''4'', CHR ''2'', CHR 0x0A] ''ZeroDivisionError'' 1 False\<rparr>]"
  by (simp add: one_case_def crash_after_answer_def get_or_def Let_def split_beta python_run_fst
      s0_files compare_exact strip_defs)

lemma full_score:
  "float_mul (round_double False 1 1) (round_double False 100 1) = Finite False 7036874417766400 (- 46)"
  by (simp add: round_defs Let_def)

text \<open>
  The claim as stated fails: a submission that does not compile passes a test case whose
  expected output is empty, and a program that prints the expected output and then ends
  with return code 1 passes as well.
\<close>

theorem passed_without_clean_run:
  "fst (test_student_code (\<lambda>i. broken_java) (one_case []) ''class Main {'' ''java'' s0) =
     Inr \<lparr>score = PyFloat (Finite False 7036874417766400 (- 46)), total_tests = 1, passed_tests = 1,
          detailed_results =
            [\<lparr>test_case_id = Some 1, passed = True, expected = Some [], actual = None, input = None,
              execution_result = Failed ''Execution failed: Compilation failed: error: ; expected''\<rparr>]\<rparr>
   \<and> fst (test_student_code (\<lambda>i. crash_after_answer) (one_case ''42'') ''print(42); 1/0'' ''python'' s0) =
     Inr \<lparr>score = PyFloat (Finite False 7036874417766400 (- 46)), total_tests = 1, passed_tests = 1,
          detailed_results =
            [\<lparr>test_case_id = Some 1, passed = True, expected = Some ''42'',
              actual = Some [CHR ''4'', CHR ''2'', CHR 0x0A], input = None,
              execution_result = Completed [CHR ''4'', CHR ''2'', CHR 0x0A] ''ZeroDivisionError'' 1 False\<rparr>]\<rparr>"
proof -
  have c: "compare_outputs [] [] ''exact''" by (simp add: compare_exact)
  show ?thesis
    using full_score
    by (simp add: test_student_code_eq Let_def broken_java_results crash_results c)
qed

section \<open>The executor\<close>

lemma build_command_live: "live (snd (build_command w language tf s)) = live s"
  by (simp add: build_command_def compile_step_def Let_def split: option.splits sum.splits)

lemma execute_code_run:
  assumes "supported_languages language = Some info"
    and "named_temporary_file w (''.'' @ extension info) s = Inr tf"
    and "write_error w = None"
    and "build_command w language tf (s\<lparr>files := (files s)(tf \<mapsto> code)\<rparr>) = (Inr cmd, s1)"
  shows "execute_code w language code inp s =
           (Inr (fst (run_command w cmd s1)),
            (snd (run_command w cmd s1))\<lparr>files := (files (snd (run_command w cmd s1)))(tf := None)\<rparr>)"
  using assms by (simp add: execute_code_def Let_def split_beta)

lemma execute_code_build_fails:
  assumes "supported_languages language = Some info"
    and "named_temporary_file w (''.'' @ extension info) s = Inr tf"
    and "write_error w = None"
    and "build_command w language tf (s\<lparr>files := (files s)(tf \<mapsto> code)\<rparr>) = (Inl msg, s1)"
  shows "execute_code w language code inp s =
           (Inr (Failed (''Execution failed: '' @ msg)), s1\<lparr>files := (files s1)(tf := None)\<rparr>)"
  using assms by (simp add: execute_code_def Let_def split_beta)

lemma run_command_returns:
  "program w = Inr ch \<Longrightarrow> outcome ch = Returns why out err rc \<Longrightarrow>
   fst (run_command w cmd s) = Completed out err rc (rc = 0)"
  by (simp add: run_command_def Let_def)

lemma run_command_timeout:
  "program w = Inr ch \<Longrightarrow> outcome ch = TimeoutExpired \<Longrightarrow>
   fst (run_command w cmd s) = Failed ''Execution timeout''"
  by (simp add: run_command_def Let_def)

lemma run_command_timeout_iff:
  "program w = Inr ch \<Longrightarrow>
   fst (run_command w cmd s) = Failed ''Execution timeout'' \<longleftrightarrow> outcome ch = TimeoutExpired"
  by (cases "outcome ch") (simp_all add: run_command_def Let_def)

lemma run_command_live:
  "program w = Inr ch \<Longrightarrow> live (snd (run_command w cmd s)) = (live s \<union> descendants ch) - {pid ch}"
  by (cases "outcome ch") (auto simp add: run_command_def Let_def)


lemma run_command_raises:
  "program w = Inr ch \<Longrightarrow> outcome ch = CommunicateRaises msg \<Longrightarrow>
   fst (run_command w cmd s) = Failed (''Execution failed: '' @ msg)"
  by (simp add: run_command_def Let_def)

text \<open>
  Claim C2, as amended. In an execution that starts the program, the result follows what
  \<^verbatim>\<open>communicate\<close> does. When it returns before the deadline with return code \<open>rc\<close>, the
  result has the captured stdout and stderr, \<open>rc\<close> and \<open>success = (rc = 0)\<close>, whatever made
  the child end: a child that the kernel ended for passing a limit gives a result of the
  same form as any other nonzero return code. When it raises another exception than
  \<^verbatim>\<open>TimeoutExpired\<close> the result is the error \<^verbatim>\<open>Execution failed: \<close> with its message. The
  result is the error \<^verbatim>\<open>Execution timeout\<close> exactly when it raises \<^verbatim>\<open>TimeoutExpired\<close>,
  which includes the run of a child that has ended with exit code 0 while a process it
  started keeps its output open.
\<close>

theorem result_mapping:
  assumes "supported_languages language = Some info"
    and "named_temporary_file w (''.'' @ extension info) s = Inr tf"
    and "write_error w = None"
    and "build_command w language tf (s\<lparr>files := (files s)(tf \<mapsto> code)\<rparr>) = (Inr cmd, s1)"
    and "program w = Inr ch"
  shows "(\<forall>why out err rc. outcome ch = Returns why out err rc \<longrightarrow>
            fst (execute_code w language code inp s) = Inr (Completed out err rc (rc = 0)))
         \<and> (\<forall>msg. outcome ch = CommunicateRaises msg \<longrightarrow>
            fst (execute_code w language code inp s) = Inr (Failed (''Execution failed: '' @ msg)))
         \<and> (fst (execute_code w language code inp s) = Inr (Failed ''Execution timeout'')
              \<longleftrightarrow> outcome ch = TimeoutExpired)"
  using run_command_returns [OF assms(5)] run_command_raises [OF assms(5)]
    run_command_timeout_iff [OF assms(5)]
  by (simp add: execute_code_run [OF assms(1-4)])

lemma temp_file_s0:
  "named_temporary_file (ends_with oc) (''.'' @ ext) s0 = Inr (''/tmp/executions/tmpk3x9w_2a.'' @ ext)"
  by (simp add: named_temporary_file_def ends_with_def temp_path_def s0_def)

lemma python_info: "supported_languages ''python'' = Some \<lparr>extension = ''py'', command = ''python3''\<rparr>"
  by (simp add: supported_languages_def)

lemma python_command:
  "build_command w ''python'' tf s = (Inr [''python3'', tf], s)"
  by (simp add: build_command_def supported_languages_def str_split_def py_isspace_def)

theorem result_mapping_witness:
  "fst (execute_code (ends_with (Returns Ordinary [CHR ''h'', CHR ''i'', CHR 0x0A] [] 0)) ''python''
         ''print(input())'' ''hi'' s0) = Inr (Completed [CHR ''h'', CHR ''i'', CHR 0x0A] [] 0 True)
   \<and> fst (execute_code (ends_with (Returns Ordinary [] ''NameError'' 1)) ''python''
         ''prin(input())'' ''hi'' s0) = Inr (Completed [] ''NameError'' 1 False)
   \<and> fst (execute_code (ends_with (CommunicateRaises ''UnicodeDecodeError'')) ''python''
         ''import sys; sys.stdout.buffer.write(bytes([255]))'' [] s0)
       = Inr (Failed ''Execution failed: UnicodeDecodeError'')
   \<and> fst (execute_code (ends_with TimeoutExpired) ''python'' ''while True: pass'' [] s0)
       = Inr (Failed ''Execution timeout'')
   \<and> fst (execute_code pipe_held_open ''python''
         ''import os, time; os.fork() == 0 and time.sleep(30); print(1)'' [] s0)
       = Inr (Failed ''Execution timeout'')"
proof -
  have p: "program (ends_with oc) = Inr \<lparr>pid = 4711, descendants = {}, outcome = oc\<rparr>" for oc
    by (simp add: ends_with_def)
  have w: "write_error (ends_with oc) = None" for oc
    by (simp add: ends_with_def)
  have t: "named_temporary_file (ends_with oc) (''.'' @ extension \<lparr>extension = ''py'', command = ''python3''\<rparr>) s0
       = Inr ''/tmp/executions/tmpk3x9w_2a.py''" for oc
    using temp_file_s0 [of oc "''py''"] by simp
  have ph: "program pipe_held_open = Inr \<lparr>pid = 4711, descendants = {4712}, outcome = TimeoutExpired\<rparr>"
    by (simp add: pipe_held_open_def)
  have wh: "write_error pipe_held_open = None"
    by (simp add: pipe_held_open_def)
  have th: "named_temporary_file pipe_held_open
              (''.'' @ extension \<lparr>extension = ''py'', command = ''python3''\<rparr>) s0
       = Inr ''/tmp/executions/tmpk3x9w_2a.py''"
    by (simp add: named_temporary_file_def pipe_held_open_def temp_path_def s0_def)
  show ?thesis
    using result_mapping [OF python_info t w python_command p, of "Returns Ordinary [CHR ''h'', CHR ''i'', CHR 0x0A] [] 0" "''print(input())''" "''hi''"]
      result_mapping [OF python_info t w python_command p, of "Returns Ordinary [] ''NameError'' 1" "''prin(input())''" "''hi''"]
      result_mapping [OF python_info t w python_command p, of "CommunicateRaises ''UnicodeDecodeError''"
        "''import sys; sys.stdout.buffer.write(bytes([255]))''" "[]"]
      result_mapping [OF python_info t w python_command p, of TimeoutExpired "''while True: pass''" "[]"]
      result_mapping [OF python_info th wh python_command ph,
        of "''import os, time; os.fork() == 0 and time.sleep(30); print(1)''" "[]"]
    by simp
qed

lemma python_execute:
  "fst (execute_code (ends_with (Returns why out err rc)) ''python'' code inp s0) =
     Inr (Completed out err rc (rc = 0))"
  using temp_file_s0 [of "Returns why out err rc" "''py''"]
  by (simp add: execute_code_def python_info python_command run_command_def ends_with_def Let_def)

text \<open>
  The claim as stated fails: a child killed for passing the CPU limit gives the same result
  as a child that ended with the same signal for another reason, and a program that ends
  with exit code 1 because its allocation passed the memory limit gives the same result as
  one that ends with exit code 1 by itself. No result says that a limit was passed.
\<close>

theorem limit_violation_is_a_plain_failure:
  "fst (execute_code (ends_with (Returns CpuLimit [] [] (- 9))) ''python'' ''while True: pass'' [] s0)
     = Inr (Completed [] [] (- 9) False)
   \<and> fst (execute_code (ends_with (Returns Ordinary [] [] (- 9))) ''python''
           ''import os; os.kill(os.getpid(), 9)'' [] s0)
     = Inr (Completed [] [] (- 9) False)
   \<and> fst (execute_code (ends_with (Returns MemoryLimit [] ''MemoryError'' 1)) ''python''
           ''x = bytearray(10**10)'' [] s0)
     = Inr (Completed [] ''MemoryError'' 1 False)
   \<and> fst (execute_code (ends_with (Returns Ordinary [] ''MemoryError'' 1)) ''python''
           ''raise MemoryError'' [] s0)
     = Inr (Completed [] ''MemoryError'' 1 False)"
  by (simp add: python_execute)

text \<open>
  Claim C3, as amended. When the deadline elapses, that is, when \<^verbatim>\<open>communicate\<close> raises
  \<^verbatim>\<open>TimeoutExpired\<close>, the result is the error \<^verbatim>\<open>Execution timeout\<close> and the child itself
  is no longer running when the call returns;
  the processes the child started keep running. (How long the call takes is not part of
  this model.)
\<close>

theorem timeout_kills_the_child_alone:
  assumes "supported_languages language = Some info"
    and "named_temporary_file w (''.'' @ extension info) s = Inr tf"
    and "write_error w = None"
    and "build_command w language tf (s\<lparr>files := (files s)(tf \<mapsto> code)\<rparr>) = (Inr cmd, s1)"
    and "program w = Inr ch"
    and "outcome ch = TimeoutExpired"
  shows "fst (execute_code w language code inp s) = Inr (Failed ''Execution timeout'')
         \<and> live (snd (execute_code w language code inp s)) = (live s \<union> descendants ch) - {pid ch}"
proof -
  have "live s1 = live s"
    using build_command_live [of w language tf "s\<lparr>files := (files s)(tf \<mapsto> code)\<rparr>"] assms(4)
    by simp
  then show ?thesis
    using run_command_timeout [OF assms(5,6)] run_command_live [OF assms(5)]
    by (simp add: execute_code_run [OF assms(1-4)])
qed

theorem timeout_kills_the_child_alone_witness:
  "fst (execute_code (ends_with TimeoutExpired) ''python'' ''while True: pass'' [] s0)
     = Inr (Failed ''Execution timeout'')
   \<and> live (snd (execute_code (ends_with TimeoutExpired) ''python'' ''while True: pass'' [] s0)) = {}"
proof -
  have p: "program (ends_with TimeoutExpired) = Inr \<lparr>pid = 4711, descendants = {}, outcome = TimeoutExpired\<rparr>"
    by (simp add: ends_with_def)
  have w: "write_error (ends_with TimeoutExpired) = None"
    by (simp add: ends_with_def)
  have t: "named_temporary_file (ends_with TimeoutExpired)
             (''.'' @ extension \<lparr>extension = ''py'', command = ''python3''\<rparr>) s0
       = Inr ''/tmp/executions/tmpk3x9w_2a.py''"
    using temp_file_s0 [of TimeoutExpired "''py''"] by simp
  show ?thesis
    using timeout_kills_the_child_alone [OF python_info t w python_command p, of "''while True: pass''" "[]"]
    by (simp add: s0_def)
qed

lemma go_info: "supported_languages ''go'' = Some \<lparr>extension = ''go'', command = ''go run''\<rparr>"
  by (simp add: supported_languages_def)

lemma go_command:
  "build_command w ''go'' tf s = (Inr [''go'', ''run'', tf], s)"
  by (simp add: build_command_def supported_languages_def str_split_def py_isspace_def)

text \<open>
  The claim as stated fails: \<^verbatim>\<open>go run\<close> starts the compiled program as a process of its
  own; when the deadline passes, \<^verbatim>\<open>process.kill()\<close> ends the \<^verbatim>\<open>go\<close> process 4711, and the
  program it started, process 4712, is still running when the call has returned.
\<close>

theorem descendant_outlives_the_deadline:
  "fst (execute_code go_run_overrun ''go'' ''package main; func main() { for {} }'' [] s0)
     = Inr (Failed ''Execution timeout'')
   \<and> spawned (snd (execute_code go_run_overrun ''go'' ''package main; func main() { for {} }'' [] s0))
     = [[''go'', ''run'', ''/tmp/executions/tmpk3x9w_2a.go'']]
   \<and> live (snd (execute_code go_run_overrun ''go'' ''package main; func main() { for {} }'' [] s0))
     = {4712}"
proof -
  have "{4712, 4711} - {4711} = {4712 :: nat}" by auto
  then show ?thesis
    by (simp add: execute_code_def go_info go_command run_command_def go_run_overrun_def
        named_temporary_file_def temp_path_def s0_def Let_def)
qed

text \<open>
  Claim C5, as amended. When the compiler of a Java or C++ submission returns a nonzero
  code, the result is the error \<^verbatim>\<open>Execution failed: Compilation failed: \<close> followed by the
  compiler's stderr; this result has no \<^verbatim>\<open>success\<close> field. The only command started
  is the compiler's, and no process is left running: the program is not run.
\<close>

theorem compile_failure_is_an_error_result:
  assumes "language = ''java'' \<or> language = ''cpp''"
    and "supported_languages language = Some info"
    and "named_temporary_file w (''.'' @ extension info) s = Inr tf"
    and "write_error w = None"
    and "compiler w = Inr c"
    and "c_returncode c \<noteq> 0"
  shows "fst (execute_code w language code inp s)
           = Inr (Failed (''Execution failed: Compilation failed: '' @ c_stderr c))
         \<and> result_success (Failed (''Execution failed: Compilation failed: '' @ c_stderr c)) = None
         \<and> spawned (snd (execute_code w language code inp s))
           = spawned s @ [if language = ''java'' then [''javac'', tf]
                          else [''g++'', tf, ''-o'', str_replace tf ''.cpp'' ''.out'']]
         \<and> live (snd (execute_code w language code inp s)) = live s"
proof -
  have b: "build_command w language tf (s\<lparr>files := (files s)(tf \<mapsto> code)\<rparr>) =
      (Inl (''Compilation failed: '' @ c_stderr c),
       s\<lparr>files := (files s)(tf \<mapsto> code) ++ c_written c,
         spawned := spawned s @ [if language = ''java'' then [''javac'', tf]
                                 else [''g++'', tf, ''-o'', str_replace tf ''.cpp'' ''.out'']]\<rparr>)"
    using assms(1,2,5,6) by (auto simp add: build_command_def compile_step_def Let_def)
  show ?thesis
    by (simp add: execute_code_build_fails [OF assms(2,3,4) b])
qed

theorem compile_failure_is_an_error_result_witness:
  "fst (execute_code broken_cpp ''cpp'' ''int main() { return 0 }'' [] s0)
     = Inr (Failed ''Execution failed: Compilation failed: error: expected ;'')
   \<and> spawned (snd (execute_code broken_cpp ''cpp'' ''int main() { return 0 }'' [] s0))
     = [[''g++'', ''/tmp/executions/tmpk3x9w_2a.cpp'', ''-o'',
         str_replace ''/tmp/executions/tmpk3x9w_2a.cpp'' ''.cpp'' ''.out'']]
   \<and> live (snd (execute_code broken_cpp ''cpp'' ''int main() { return 0 }'' [] s0)) = {}"
proof -
  have l: "''cpp'' = ''java'' \<or> ''cpp'' = ''cpp''" by simp
  have i: "supported_languages ''cpp'' = Some \<lparr>extension = ''cpp'', command = ''g++''\<rparr>"
    by (simp add: supported_languages_def)
  have t: "named_temporary_file broken_cpp (''.'' @ extension \<lparr>extension = ''cpp'', command = ''g++''\<rparr>) s0
      = Inr ''/tmp/executions/tmpk3x9w_2a.cpp''"
    by (simp add: named_temporary_file_def broken_cpp_def temp_path_def s0_def)
  have w: "write_error broken_cpp = None" by (simp add: broken_cpp_def)
  have c: "compiler broken_cpp = Inr \<lparr>c_returncode = 1, c_stderr = ''error: expected ;'', c_written = Map.empty\<rparr>"
    by (simp add: broken_cpp_def)
  have n: "c_returncode \<lparr>c_returncode = 1, c_stderr = ''error: expected ;'', c_written = Map.empty\<rparr> \<noteq> 0"
    by simp
  show ?thesis
    using compile_failure_is_an_error_result [OF l i t w c n, of "''int main() { return 0 }''" "[]"]
    by (simp add: s0_def)
qed

text \<open>
  The claim as stated fails: the result of a submission that does not compile has no
  \<^verbatim>\<open>success\<close> field (\<^verbatim>\<open>result.get('success')\<close> is \<^verbatim>\<open>None\<close>, not \<^verbatim>\<open>False\<close>); it is the
  same kind of result as any other failure of the execution.
\<close>

theorem compile_failure_has_no_success_flag:
  "map_sum id result_success
     (fst (execute_code (exec_world broken_java) ''java'' ''class Main {'' [] s0)) = Inr None
   \<and> map_sum id result_error
     (fst (execute_code (exec_world broken_java) ''java'' ''class Main {'' [] s0))
     = Inr (Some ''Execution failed: Compilation failed: error: ; expected'')"
  by (simp add: execute_code_def supported_languages_def build_command_def compile_step_def
      broken_java_def named_temporary_file_def temp_path_def s0_def Let_def)



lemma str_replace_suffix:
  "CHR ''.'' \<notin> set pre \<Longrightarrow> str_replace (pre @ ''.cpp'') ''.cpp'' ''.out'' = pre @ ''.out''"
proof (induction pre)
  case Nil
  then show ?case by (simp add: str_replace.simps [of "''.cpp''"] str_replace.simps [of "[]"])
next
  case (Cons c pre)
  then show ?case by (simp add: str_replace.simps [of "c # pre @ ''.cpp''"])
qed




lemma mkstemp_fresh:
  "mkstemp ns suffix fs = Some p \<Longrightarrow> fs p = None \<and> (\<exists>n\<in>set ns. p = temp_path n suffix)"
  by (induction ns) (auto split: if_splits)

text \<open>
  Claim C4, as amended. An execution does not allocate a directory: it creates its source
  file in the one directory \<^verbatim>\<open>/tmp/executions\<close>, under a drawn name that no file there has
  at that moment, so the source file of an execution differs from every file that exists
  when it starts; and the binary of a C++ submission is named from the source file, so it
  differs between two executions as their source files do.
\<close>

theorem source_file_name_is_fresh:
  assumes "named_temporary_file w suffix s = Inr p"
  shows "files s p = None
         \<and> (\<exists>n\<in>set (tmp_names w). p = ''/tmp/executions/'' @ n @ suffix)
         \<and> (\<forall>n. CHR ''.'' \<notin> set n \<longrightarrow>
               str_replace (''/tmp/executions/'' @ n @ ''.cpp'') ''.cpp'' ''.out''
               = ''/tmp/executions/'' @ n @ ''.out'')"
proof -
  from assms have m: "mkstemp (tmp_names w) suffix (files s) = Some p"
    by (simp add: named_temporary_file_def split: option.splits)
  have r: "CHR ''.'' \<notin> set n \<longrightarrow>
               str_replace (''/tmp/executions/'' @ n @ ''.cpp'') ''.cpp'' ''.out''
               = ''/tmp/executions/'' @ n @ ''.out''" for n
    using str_replace_suffix [of "''/tmp/executions/'' @ n"] by simp
  from mkstemp_fresh [OF m] r show ?thesis by (simp add: temp_path_def)
qed

theorem source_file_name_is_fresh_witness:
  "named_temporary_file
     \<lparr>tmp_names = [''tmpaaaaaaaa'', ''tmpbbbbbbbb''], tmp_error = None, write_error = None,
      compiler = Inl [], program = Inl []\<rparr> ''.cpp''
     (s0\<lparr>files := [''/tmp/executions/tmpaaaaaaaa.cpp'' \<mapsto> ''int main() {}'']\<rparr>)
   = Inr ''/tmp/executions/tmpbbbbbbbb.cpp''
   \<and> files (s0\<lparr>files := [''/tmp/executions/tmpaaaaaaaa.cpp'' \<mapsto> ''int main() {}'']\<rparr>)
        ''/tmp/executions/tmpbbbbbbbb.cpp'' = None
   \<and> str_replace ''/tmp/executions/tmpbbbbbbbb.cpp'' ''.cpp'' ''.out'' = ''/tmp/executions/tmpbbbbbbbb.out''"
proof -
  let ?w = "\<lparr>tmp_names = [''tmpaaaaaaaa'', ''tmpbbbbbbbb''], tmp_error = None, write_error = None,
      compiler = Inl [], program = Inl []\<rparr>"
  let ?s = "s0\<lparr>files := [''/tmp/executions/tmpaaaaaaaa.cpp'' \<mapsto> ''int main() {}'']\<rparr>"
  have t: "named_temporary_file ?w ''.cpp'' ?s = Inr ''/tmp/executions/tmpbbbbbbbb.cpp''"
    by (simp add: named_temporary_file_def temp_path_def)
  have d: "CHR ''.'' \<notin> set ''tmpbbbbbbbb''" by simp
  from source_file_name_is_fresh [OF t]
  have f: "files ?s ''/tmp/executions/tmpbbbbbbbb.cpp'' = None"
    and r: "\<forall>n. CHR ''.'' \<notin> set n \<longrightarrow>
               str_replace (''/tmp/executions/'' @ n @ ''.cpp'') ''.cpp'' ''.out''
               = ''/tmp/executions/'' @ n @ ''.out''"
    by blast+
  from r d have "str_replace (''/tmp/executions/'' @ ''tmpbbbbbbbb'' @ ''.cpp'') ''.cpp'' ''.out''
               = ''/tmp/executions/'' @ ''tmpbbbbbbbb'' @ ''.out''"
    by blast
  with t f show ?thesis by simp
qed

text \<open>
  The claim as stated fails. Two Java submissions that both declare the class \<^verbatim>\<open>Main\<close>
  get their source files side by side in \<^verbatim>\<open>/tmp/executions\<close>; \<^verbatim>\<open>javac\<close> writes the class
  file next to the source, and both executions run with the class path \<^verbatim>\<open>/tmp/executions\<close>.
  When the second is compiled after the first, with both source files in place, the class
  file of the first is overwritten before the first has run.
\<close>

theorem class_file_is_overwritten:
  "named_temporary_file (compiles ''tmpaaaaaaaa'' [''/tmp/executions/Main.class'' \<mapsto> ''bytecode of A''])
     ''.java'' s0 = Inr ''/tmp/executions/tmpaaaaaaaa.java''
   \<and> named_temporary_file (compiles ''tmpbbbbbbbb'' [''/tmp/executions/Main.class'' \<mapsto> ''bytecode of B''])
     ''.java'' (s0\<lparr>files := [''/tmp/executions/tmpaaaaaaaa.java'' \<mapsto> ''class Main { /* A */ }'']\<rparr>)
     = Inr ''/tmp/executions/tmpbbbbbbbb.java''
   \<and> fst (build_command (compiles ''tmpaaaaaaaa'' [''/tmp/executions/Main.class'' \<mapsto> ''bytecode of A''])
          ''java'' ''/tmp/executions/tmpaaaaaaaa.java'' two_sources)
     = Inr [''java'', ''-cp'', ''/tmp/executions'', ''tmpaaaaaaaa'']
   \<and> files (snd (build_command (compiles ''tmpaaaaaaaa'' [''/tmp/executions/Main.class'' \<mapsto> ''bytecode of A''])
          ''java'' ''/tmp/executions/tmpaaaaaaaa.java'' two_sources)) ''/tmp/executions/Main.class''
     = Some ''bytecode of A''
   \<and> fst (build_command (compiles ''tmpbbbbbbbb'' [''/tmp/executions/Main.class'' \<mapsto> ''bytecode of B''])
          ''java'' ''/tmp/executions/tmpbbbbbbbb.java''
          (snd (build_command (compiles ''tmpaaaaaaaa'' [''/tmp/executions/Main.class'' \<mapsto> ''bytecode of A''])
             ''java'' ''/tmp/executions/tmpaaaaaaaa.java'' two_sources)))
     = Inr [''java'', ''-cp'', ''/tmp/executions'', ''tmpbbbbbbbb'']
   \<and> files (snd (build_command (compiles ''tmpbbbbbbbb'' [''/tmp/executions/Main.class'' \<mapsto> ''bytecode of B''])
          ''java'' ''/tmp/executions/tmpbbbbbbbb.java''
          (snd (build_command (compiles ''tmpaaaaaaaa'' [''/tmp/executions/Main.class'' \<mapsto> ''bytecode of A''])
             ''java'' ''/tmp/executions/tmpaaaaaaaa.java'' two_sources)))) ''/tmp/executions/Main.class''
     = Some ''bytecode of B''"
  by (simp add: build_command_def compile_step_def supported_languages_def compiles_def
      two_sources_def path_stem_def path_name_def Let_def named_temporary_file_def temp_path_def
      s0_def)

end
